theory Spec2Isabelle
  imports Main "HOL-Library.AList"
begin

section \<open>The Evergreen task-matrix generator (build/generate-evergreen-config.py)\<close>

text \<open>
  The script enumerates the cartesian product of configuration axes, drops the
  combinations that its constraint rules prohibit, and decorates each remaining task
  with a name, tags, a timeout option and the compile task it depends on.
  This theory embeds that enumerate-filter-derive core; template rendering and YAML
  output are not modelled.
\<close>

subsection \<open>Python values and exceptions\<close>

text \<open>
  An axis value is either a Python string or one of the booleans \<open>True\<close> / \<open>False\<close>.
  \<open>truthy\<close> is Python's truth test (\<open>if v\<close>, \<open>not v\<close>): \<open>False\<close> and the empty
  string are falsy.
\<close>

datatype pyval = Str string | Bool bool

fun truthy :: "pyval \<Rightarrow> bool" where
  "truthy (Bool b) = b"
| "truthy (Str s) = (s \<noteq> [])"

text \<open>
  The exceptions the modelled code can raise: \<open>Prohibited\<close> (raised by the constraint
  rules), \<open>AssertionError\<close> (the \<open>assert\<close> in the dependency derivation) and
  \<open>TypeError\<close> (a namedtuple constructor called with the wrong number of values).
\<close>

datatype error = Prohibited | AssertionError | TypeError

fun map_ok :: "('a \<Rightarrow> error + 'b) \<Rightarrow> 'a list \<Rightarrow> error + 'b list" where
  "map_ok f [] = Inr []"
| "map_ok f (x # xs) =
     (case f x of
        Inl e \<Rightarrow> Inl e
      | Inr y \<Rightarrow> (case map_ok f xs of Inl e \<Rightarrow> Inl e | Inr ys \<Rightarrow> Inr (y # ys)))"

text \<open>A block of statements: they run in order and the first exception ends the block.\<close>

fun stmts :: "(error + unit) list \<Rightarrow> error + unit" where
  "stmts [] = Inr ()"
| "stmts (s # ss) = (case s of Inl e \<Rightarrow> Inl e | Inr _ \<Rightarrow> stmts ss)"

text \<open>\<open>sep.join(parts)\<close>\<close>

fun join :: "string \<Rightarrow> string list \<Rightarrow> string" where
  "join sep [] = []"
| "join sep [x] = x"
| "join sep (x # y # ys) = x @ sep @ join sep (y # ys)"

subsection \<open>class Task\<close>

text \<open>
  \<open>Task.__init__\<close> gives every task an empty tag set, an empty (ordered) option
  dictionary and an empty dependency list. The task families extend this record with
  one field per axis, as the namedtuple base classes do.
\<close>

record task =
  tags :: "pyval set"
  options :: "(string \<times> int) list"
  depends_on :: "string list"

definition Task_name_prefix :: string where
  "Task_name_prefix = ''test''"

text \<open>
  \<open>Task.display(self, axis_name)\<close>, given \<open>value = getattr(self, axis_name)\<close>: every
  call names its axis literally (or takes it from the axis table), so the attribute is
  read at the call site and passed in.
\<close>

fun display :: "string \<Rightarrow> pyval \<Rightarrow> string" where
  "display axis_name (Bool False) = ''no'' @ axis_name"
| "display axis_name (Bool True) = axis_name"
| "display axis_name (Str s) = s"

subsection \<open>The compile-task catalog\<close>

text \<open>
  Of a compile task only its name and tags are modelled; the build-script options
  (\<open>compile_sh_opt\<close>, \<open>extra_commands\<close>, \<open>continue_on_err\<close>) play no part in generating
  the test tasks. \<open>SpecialTask\<close> adds the tag \<open>special\<close>.
\<close>

record compile_task = task +
  compile_task_name :: string

definition CompileTask :: "string \<Rightarrow> string list \<Rightarrow> compile_task" where
  "CompileTask name tgs =
     \<lparr>tags = Str ` set tgs, options = [], depends_on = [], compile_task_name = name\<rparr>"

definition SpecialTask :: "string \<Rightarrow> string list \<Rightarrow> compile_task" where
  "SpecialTask name tgs =
     (let self = CompileTask name tgs in self\<lparr>tags := insert (Str ''special'') (tags self)\<rparr>)"

definition CompileTask_name :: "compile_task \<Rightarrow> string" where
  "CompileTask_name self = compile_task_name self"

definition compile_tasks :: "compile_task list" where
  "compile_tasks =
    [CompileTask ''debug-compile-compression-zlib'' [''zlib'', ''compression''],
     CompileTask ''debug-compile-compression-snappy'' [''snappy'', ''compression''],
     CompileTask ''debug-compile-compression'' [''zlib'', ''snappy'', ''compression''],
     CompileTask ''debug-compile-no-align'' [''debug-compile''],
     CompileTask ''debug-compile-nosasl-nossl'' [''debug-compile'', ''nosasl'', ''nossl''],
     CompileTask ''debug-compile-lto'' [],
     CompileTask ''debug-compile-lto-thin'' [],
     SpecialTask ''debug-compile-c11'' [''debug-compile'', ''c11'', ''stdflags''],
     SpecialTask ''debug-compile-c99'' [''debug-compile'', ''c99'', ''stdflags''],
     SpecialTask ''debug-compile-c89'' [''debug-compile'', ''c89'', ''stdflags''],
     SpecialTask ''debug-compile-valgrind'' [''debug-compile'', ''valgrind''],
     SpecialTask ''debug-compile-coverage'' [''debug-compile'', ''coverage''],
     CompileTask ''debug-compile-no-counters'' [''debug-compile'', ''no-counters''],
     SpecialTask ''debug-compile-asan-clang'' [''debug-compile'', ''asan-clang''],
     SpecialTask ''debug-compile-asan-gcc'' [],
     SpecialTask ''debug-compile-asan-clang-openssl'' [''debug-compile'', ''asan-clang''],
     SpecialTask ''debug-compile-ubsan'' [],
     SpecialTask ''debug-compile-scan-build'' [''clang'', ''debug-compile'', ''scan-build'']]"

subsection \<open>class AuthTask\<close>

definition auth_task_axes :: "(string \<times> pyval list) list" where
  "auth_task_axes =
    [(''sasl'', [Str ''sasl'', Str ''sspi'', Bool False]),
     (''ssl'', [Str ''openssl'', Str ''darwinssl'', Str ''winssl''])]"

record auth_task = task +
  sasl :: pyval
  ssl :: pyval

text \<open>
  \<open>AuthTask(*cell)\<close>: the namedtuple constructor takes exactly one value per axis, in
  the order of the axis table, and \<open>Task.__init__\<close> sets the derived fields.
\<close>

fun AuthTask :: "pyval list \<Rightarrow> error + auth_task" where
  "AuthTask [sasl', ssl'] =
     Inr \<lparr>tags = {}, options = [], depends_on = [], sasl = sasl', ssl = ssl'\<rparr>"
| "AuthTask _ = Inl TypeError"

definition AuthTask_name_prefix :: string where
  "AuthTask_name_prefix = ''authentication-tests''"

definition AuthTask_name :: "auth_task \<Rightarrow> string" where
  "AuthTask_name self =
     (let rv = AuthTask_name_prefix @ ''-'' @ display ''ssl'' (auth_task.ssl self)
      in if truthy (auth_task.sasl self) then rv else rv @ ''-nosasl'')"

subsection \<open>class IntegrationTask\<close>

definition integration_task_axes :: "(string \<times> pyval list) list" where
  "integration_task_axes =
    [(''valgrind'', [Str ''valgrind'', Bool False]),
     (''asan'', [Str ''asan'', Bool False]),
     (''coverage'', [Str ''coverage'', Bool False]),
     (''version'', [Str ''latest'', Str ''4.0'', Str ''3.6'', Str ''3.4'', Str ''3.2'', Str ''3.0'']),
     (''topology'', [Str ''server'', Str ''replica_set'', Str ''sharded_cluster'']),
     (''auth'', [Bool True, Bool False]),
     (''sasl'', [Str ''sasl'', Str ''sspi'', Bool False]),
     (''ssl'', [Str ''openssl'', Str ''darwinssl'', Str ''winssl'', Bool False])]"

record integration_task = task +
  valgrind :: pyval
  asan :: pyval
  coverage :: pyval
  version :: pyval
  topology :: pyval
  auth :: pyval
  sasl :: pyval
  ssl :: pyval

fun IntegrationTask :: "pyval list \<Rightarrow> error + integration_task" where
  "IntegrationTask [valgrind', asan', coverage', version', topology', auth', sasl', ssl'] =
     Inr \<lparr>tags = {}, options = [], depends_on = [],
          valgrind = valgrind', asan = asan', coverage = coverage', version = version',
          topology = topology', auth = auth', sasl = sasl', ssl = ssl'\<rparr>"
| "IntegrationTask _ = Inl TypeError"

text \<open>
  The fields of an integration task by axis name, in the order of the axis table: what
  \<open>getattr(self, axis_name) for axis_name in integration_task_axes\<close> visits.
\<close>

definition integration_task_fields :: "integration_task \<Rightarrow> (string \<times> pyval) list" where
  "integration_task_fields self =
    [(''valgrind'', valgrind self), (''asan'', asan self), (''coverage'', coverage self),
     (''version'', version self), (''topology'', topology self), (''auth'', auth self),
     (''sasl'', sasl self), (''ssl'', ssl self)]"

definition name_part :: "string \<Rightarrow> pyval \<Rightarrow> string" where
  "name_part axis_name v =
     (let part = display axis_name v
      in if part = ''replica_set'' then ''replica-set''
         else if part = ''sharded_cluster'' then ''sharded''
         else part)"

definition IntegrationTask_name :: "integration_task \<Rightarrow> string" where
  "IntegrationTask_name self =
     Task_name_prefix @ ''-'' @
     join ''-''
       (map (\<lambda>(axis_name, v). name_part axis_name v)
         (filter (\<lambda>(axis_name, v). truthy v \<or> axis_name \<in> set [''auth'', ''sasl'', ''ssl''])
           (integration_task_fields self)))"

subsection \<open>The matrix and the constraint rules\<close>

text \<open>
  \<open>matrix\<close> builds one cell per element of \<open>itertools.product\<close> of the axis value lists
  and collects the cells in a Python set. The set removes duplicates and fixes no
  iteration order; the model keeps the cells in product order, and every property below
  is about which tasks are generated, not about their order.
\<close>

definition matrix :: "(pyval list \<Rightarrow> error + 't) \<Rightarrow> (string \<times> pyval list) list \<Rightarrow> error + 't list" where
  "matrix cell_class axes =
     (case map_ok cell_class (product_lists (map snd axes)) of
        Inl e \<Rightarrow> Inl e
      | Inr cells \<Rightarrow> Inr (remdups cells))"

definition require :: "bool \<Rightarrow> error + unit" where
  "require rule = (if \<not> rule then Inl Prohibited else Inr ())"

definition prohibit :: "bool \<Rightarrow> error + unit" where
  "prohibit rule = (if rule then Inl Prohibited else Inr ())"

definition both_or_neither :: "bool \<Rightarrow> bool \<Rightarrow> error + unit" where
  "both_or_neither rule0 rule1 = (if rule0 then require rule1 else prohibit rule1)"

definition allow_integration_test_task :: "integration_task \<Rightarrow> error + unit" where
  "allow_integration_test_task task = stmts
    [if truthy (valgrind task) then stmts
       [prohibit (truthy (asan task)),
        prohibit (truthy (sasl task)),
        require (ssl task \<in> set [Str ''openssl'', Bool False]),
        prohibit (truthy (coverage task)),
        if truthy (auth task) then require (ssl task = Str ''openssl'')
        else prohibit (truthy (ssl task))]
     else Inr (),
     if truthy (auth task) then require (truthy (ssl task)) else Inr (),
     if sasl task = Str ''sspi'' then stmts
       [require (topology task = Str ''server''),
        require (version task = Str ''latest''),
        require (ssl task = Str ''winssl''),
        require (truthy (auth task))]
     else Inr (),
     if \<not> truthy (ssl task) then prohibit (truthy (sasl task)) else Inr (),
     if truthy (coverage task) then stmts
       [prohibit (truthy (sasl task)),
        if truthy (auth task) then require (ssl task = Str ''openssl'')
        else prohibit (truthy (ssl task))]
     else Inr (),
     if truthy (asan task) then stmts
       [prohibit (truthy (sasl task)),
        prohibit (truthy (coverage task)),
        if truthy (auth task) then require (ssl task = Str ''openssl'')
        else prohibit (truthy (ssl task))]
     else Inr ()]"

definition allow_auth_test_task :: "auth_task \<Rightarrow> error + unit" where
  "allow_auth_test_task task = stmts
    [both_or_neither (auth_task.ssl task = Str ''winssl'') (auth_task.sasl task = Str ''sspi''),
     if \<not> truthy (auth_task.sasl task) then require (auth_task.ssl task = Str ''openssl'')
     else Inr ()]"

subsection \<open>Generation\<close>

text \<open>
  The body of the loop in \<open>make_integration_test_tasks\<close> after the constraint check:
  tags and timeout first, then the dependency. The \<open>assert\<close> is a branch of its own.
\<close>

definition integration_test_task_body :: "integration_task \<Rightarrow> error + integration_task" where
  "integration_test_task_body task0 =
    (let task =
       (if truthy (valgrind task0) then
          task0\<lparr>tags := insert (Str ''test-valgrind'') (tags task0),
                options := AList.update ''exec_timeout_secs'' 7200 (options task0)\<rparr>
        else if truthy (coverage task0) then
          task0\<lparr>tags := insert (Str ''test-coverage'') (tags task0),
                options := AList.update ''exec_timeout_secs'' 3600 (options task0)\<rparr>
        else if truthy (asan task0) then
          task0\<lparr>tags := insert (Str ''test-asan'') (tags task0),
                options := AList.update ''exec_timeout_secs'' 3600 (options task0)\<rparr>
        else
          task0\<lparr>tags := insert (version task0) (insert (topology task0) (tags task0))
                  \<union> set [Str (display ''ssl'' (ssl task0)),
                         Str (display ''sasl'' (sasl task0)),
                         Str (display ''auth'' (auth task0))]\<rparr>)
     in
       if truthy (valgrind task) then
         Inr (task\<lparr>depends_on := depends_on task @ [''debug-compile-valgrind'']\<rparr>)
       else if truthy (asan task) \<and> truthy (ssl task) then
         Inr (task\<lparr>depends_on := depends_on task
                @ [''debug-compile-asan-clang-'' @ display ''ssl'' (ssl task)]\<rparr>)
       else if truthy (asan task) then
         (if \<not> \<not> truthy (sasl task) then Inl AssertionError
          else Inr (task\<lparr>depends_on := depends_on task @ [''debug-compile-asan-clang'']\<rparr>))
       else if \<not> truthy (coverage task) then
         Inr (task\<lparr>depends_on := depends_on task
                @ [''debug-compile-'' @ display ''sasl'' (sasl task) @ ''-''
                     @ display ''ssl'' (ssl task)]\<rparr>)
       else Inr task)"

text \<open>
  The \<open>for\<close> loop with its \<open>try\<close> / \<open>except Prohibited: continue\<close>: only \<open>Prohibited\<close>
  is caught, any other exception leaves the loop.
\<close>

fun integration_loop :: "integration_task list \<Rightarrow> integration_task list \<Rightarrow> error + integration_task list" where
  "integration_loop [] tasks_list = Inr tasks_list"
| "integration_loop (task # rest) tasks_list =
     (case allow_integration_test_task task of
        Inl Prohibited \<Rightarrow> integration_loop rest tasks_list
      | Inl e \<Rightarrow> Inl e
      | Inr _ \<Rightarrow>
          (case integration_test_task_body task of
             Inl e \<Rightarrow> Inl e
           | Inr task' \<Rightarrow> integration_loop rest (tasks_list @ [task'])))"

definition make_integration_test_tasks :: "error + integration_task list" where
  "make_integration_test_tasks =
     (case matrix IntegrationTask integration_task_axes of
        Inl e \<Rightarrow> Inl e
      | Inr cells \<Rightarrow> integration_loop cells [])"

definition auth_test_task_body :: "auth_task \<Rightarrow> auth_task" where
  "auth_test_task_body task0 =
    (let task = task0\<lparr>tags := tags task0
                  \<union> set [Str ''authentication-tests'',
                         Str (display ''ssl'' (auth_task.ssl task0)),
                         Str (display ''sasl'' (auth_task.sasl task0))]\<rparr>
     in task\<lparr>depends_on := depends_on task
            @ [''debug-compile-'' @ display ''sasl'' (auth_task.sasl task) @ ''-''
                 @ display ''ssl'' (auth_task.ssl task)]\<rparr>)"

fun auth_loop :: "auth_task list \<Rightarrow> auth_task list \<Rightarrow> error + auth_task list" where
  "auth_loop [] tasks_list = Inr tasks_list"
| "auth_loop (task # rest) tasks_list =
     (case allow_auth_test_task task of
        Inl Prohibited \<Rightarrow> auth_loop rest tasks_list
      | Inl e \<Rightarrow> Inl e
      | Inr _ \<Rightarrow> auth_loop rest (tasks_list @ [auth_test_task_body task]))"

definition make_auth_test_tasks :: "error + auth_task list" where
  "make_auth_test_tasks =
     (case matrix AuthTask auth_task_axes of
        Inl e \<Rightarrow> Inl e
      | Inr cells \<Rightarrow> auth_loop cells [])"

subsection \<open>Vocabulary of the proofs\<close>

text \<open>
  The candidates of the integration family: the cells of the matrix, described by the
  axis table, before any derived field is set.
\<close>

definition integration_candidates :: "integration_task set" where
  "integration_candidates =
     {t. tags t = {} \<and> options t = [] \<and> depends_on t = [] \<and>
         list_all2 (\<lambda>(axis_name, v) (axis_name', values). axis_name = axis_name' \<and> v \<in> set values)
           (integration_task_fields t) integration_task_axes}"

text \<open>A constraint check either passes or raises \<open>Prohibited\<close>.\<close>

definition raises_only_Prohibited :: "error + unit \<Rightarrow> bool" where
  "raises_only_Prohibited r \<longleftrightarrow> r = Inr () \<or> r = Inl Prohibited"

text \<open>
  The pieces of an integration task's name: the token of an optional axis with its
  hyphen, and the five tokens that are always present.
\<close>

definition opt_part :: "string \<Rightarrow> pyval \<Rightarrow> string" where
  "opt_part axis_name v = (if truthy v then name_part axis_name v @ ''-'' else [])"

definition mandatory_parts :: "pyval \<Rightarrow> pyval \<Rightarrow> pyval \<Rightarrow> pyval \<Rightarrow> pyval \<Rightarrow> string" where
  "mandatory_parts ve to au sa ss =
     name_part ''version'' ve @ ''-'' @ name_part ''topology'' to @ ''-'' @
     name_part ''auth'' au @ ''-'' @ name_part ''sasl'' sa @ ''-'' @ name_part ''ssl'' ss"

subsection \<open>The naming rule as the specification words it\<close>

text \<open>
  The display token of an axis value: \<open>no\<close> followed by the axis name for a falsy value,
  the axis name for \<open>True\<close>, the value itself otherwise. In an integration task's name
  \<open>replica_set\<close> is rendered \<open>replica-set\<close> and \<open>sharded_cluster\<close> is rendered \<open>sharded\<close>;
  an axis contributes its token when its value is non-falsy or the axis is one of auth,
  sasl, ssl. An auth task's name is the prefix, the ssl display token, and \<open>-nosasl\<close>
  when sasl is falsy.
\<close>

definition spec_display :: "string \<Rightarrow> pyval \<Rightarrow> string" where
  "spec_display axis_name v =
     (if \<not> truthy v then ''no'' @ axis_name
      else (case v of Str s \<Rightarrow> s | Bool b \<Rightarrow> axis_name))"

definition spec_token :: "string \<Rightarrow> pyval \<Rightarrow> string" where
  "spec_token axis_name v =
     (if v = Str ''replica_set'' then ''replica-set''
      else if v = Str ''sharded_cluster'' then ''sharded''
      else spec_display axis_name v)"

definition spec_integration_name :: "integration_task \<Rightarrow> string" where
  "spec_integration_name t =
     ''test'' @ ''-'' @ join ''-''
       ((if truthy (valgrind t) then [spec_token ''valgrind'' (valgrind t)] else []) @
        (if truthy (asan t) then [spec_token ''asan'' (asan t)] else []) @
        (if truthy (coverage t) then [spec_token ''coverage'' (coverage t)] else []) @
        (if truthy (version t) then [spec_token ''version'' (version t)] else []) @
        (if truthy (topology t) then [spec_token ''topology'' (topology t)] else []) @
        [spec_token ''auth'' (auth t), spec_token ''sasl'' (sasl t), spec_token ''ssl'' (ssl t)])"

definition spec_auth_name :: "auth_task \<Rightarrow> string" where
  "spec_auth_name t =
     ''authentication-tests'' @ ''-'' @ spec_display ''ssl'' (auth_task.ssl t) @
     (if \<not> truthy (auth_task.sasl t) then ''-nosasl'' else [])"

subsection \<open>The names of all generated tasks\<close>

text \<open>
  The names of the tasks of both generated families, as the template receives them from
  the two generator functions.
\<close>

definition generated_task_names :: "string set" where
  "generated_task_names =
     (case make_integration_test_tasks of
        Inl e \<Rightarrow> {} | Inr ts \<Rightarrow> set (map IntegrationTask_name ts)) \<union>
     (case make_auth_test_tasks of
        Inl e \<Rightarrow> {} | Inr ts \<Rightarrow> set (map AuthTask_name ts))"

section \<open>Properties\<close>

subsection \<open>The matrix and the generation loop\<close>

lemma map_ok_set:
  "(\<And>x. x \<in> set xs \<Longrightarrow> \<exists>y. f x = Inr y) \<Longrightarrow>
   \<exists>ys. map_ok f xs = Inr ys \<and> set ys = {y. \<exists>x\<in>set xs. f x = Inr y}"
proof (induction xs)
  case Nil
  then show ?case by simp
next
  case (Cons x xs)
  from Cons.prems [of x] obtain y where y: "f x = Inr y" by auto
  have "\<exists>ys. map_ok f xs = Inr ys \<and> set ys = {y. \<exists>x\<in>set xs. f x = Inr y}"
    by (rule Cons.IH) (simp add: Cons.prems)
  then obtain ys where ys: "map_ok f xs = Inr ys" "set ys = {y. \<exists>x\<in>set xs. f x = Inr y}"
    by blast
  show ?case using y ys by auto
qed

lemma integration_candidates_iff:
  "t \<in> integration_candidates \<longleftrightarrow>
     tags t = {} \<and> options t = [] \<and> depends_on t = [] \<and>
     valgrind t \<in> {Str ''valgrind'', Bool False} \<and>
     asan t \<in> {Str ''asan'', Bool False} \<and>
     coverage t \<in> {Str ''coverage'', Bool False} \<and>
     version t \<in> {Str ''latest'', Str ''4.0'', Str ''3.6'', Str ''3.4'', Str ''3.2'', Str ''3.0''} \<and>
     topology t \<in> {Str ''server'', Str ''replica_set'', Str ''sharded_cluster''} \<and>
     auth t \<in> {Bool True, Bool False} \<and>
     sasl t \<in> {Str ''sasl'', Str ''sspi'', Bool False} \<and>
     ssl t \<in> {Str ''openssl'', Str ''darwinssl'', Str ''winssl'', Bool False}"
  by (simp add: integration_candidates_def integration_task_fields_def integration_task_axes_def)

lemma IntegrationTask_Inr_iff:
  "IntegrationTask xs = Inr t \<longleftrightarrow>
     (\<exists>v a c ve to au sa ss. xs = [v, a, c, ve, to, au, sa, ss] \<and>
        t = \<lparr>tags = {}, options = [], depends_on = [],
          valgrind = v, asan = a, coverage = c, version = ve,
          topology = to, auth = au, sasl = sa, ssl = ss\<rparr>)"
  by (rule IntegrationTask.cases [of xs]) auto

lemma integration_cells_set:
  "{y. \<exists>x\<in>{xs. list_all2 (\<lambda>x ys. x \<in> set ys) xs [A, B, C, D, E, F, G, H]}. IntegrationTask x = Inr y}
   = {t. tags t = {} \<and> options t = [] \<and> depends_on t = [] \<and>
         valgrind t \<in> set A \<and> asan t \<in> set B \<and> coverage t \<in> set C \<and> version t \<in> set D \<and>
         topology t \<in> set E \<and> auth t \<in> set F \<and> sasl t \<in> set G \<and> ssl t \<in> set H}"
proof (rule set_eqI)
  fix t :: integration_task
  show "t \<in> {y. \<exists>x\<in>{xs. list_all2 (\<lambda>x ys. x \<in> set ys) xs [A, B, C, D, E, F, G, H]}. IntegrationTask x = Inr y}
    \<longleftrightarrow> t \<in> {t. tags t = {} \<and> options t = [] \<and> depends_on t = [] \<and>
         valgrind t \<in> set A \<and> asan t \<in> set B \<and> coverage t \<in> set C \<and> version t \<in> set D \<and>
         topology t \<in> set E \<and> auth t \<in> set F \<and> sasl t \<in> set G \<and> ssl t \<in> set H}"
    by (cases t) (auto simp: IntegrationTask_Inr_iff list_all2_Cons2)
qed

lemma integration_matrix:
  "\<exists>cells. matrix IntegrationTask integration_task_axes = Inr cells \<and> distinct cells \<and>
     set cells = integration_candidates"
proof -
  let ?xss = "product_lists (map snd integration_task_axes)"
  have len: "\<exists>y. IntegrationTask xs = Inr y" if "xs \<in> set ?xss" for xs
  proof -
    from that have "length xs = length (map snd integration_task_axes)"
      by (rule in_set_product_lists_length)
    then have "length xs = 8"
      by (simp add: integration_task_axes_def)
    then obtain v a c ve to au sa ss where "xs = [v, a, c, ve, to, au, sa, ss]"
      by (auto simp: length_Suc_conv eval_nat_numeral)
    then show ?thesis by simp
  qed
  from map_ok_set [of ?xss IntegrationTask, OF len]
  obtain ys where ys: "map_ok IntegrationTask ?xss = Inr ys"
    "set ys = {y. \<exists>x\<in>set ?xss. IntegrationTask x = Inr y}" by blast
  have axes: "map snd integration_task_axes =
     [[Str ''valgrind'', Bool False], [Str ''asan'', Bool False], [Str ''coverage'', Bool False],
      [Str ''latest'', Str ''4.0'', Str ''3.6'', Str ''3.4'', Str ''3.2'', Str ''3.0''],
      [Str ''server'', Str ''replica_set'', Str ''sharded_cluster''],
      [Bool True, Bool False], [Str ''sasl'', Str ''sspi'', Bool False],
      [Str ''openssl'', Str ''darwinssl'', Str ''winssl'', Bool False]]"
    by (simp add: integration_task_axes_def)
  have "set ys = integration_candidates"
    unfolding ys(2) product_lists_set axes integration_cells_set
    by (rule set_eqI) (simp add: integration_candidates_iff)
  then show ?thesis using ys(1) by (simp add: matrix_def)
qed


lemma stmts_Cons_Inr: "stmts (s # ss) = Inr () \<longleftrightarrow> s = Inr () \<and> stmts ss = Inr ()"
  by (cases s) auto

lemma stmts_Nil_Inr: "stmts [] = Inr () \<longleftrightarrow> True"
  by simp

lemma require_Inr: "require b = Inr () \<longleftrightarrow> b"
  by (simp add: require_def)

lemma prohibit_Inr: "prohibit b = Inr () \<longleftrightarrow> \<not> b"
  by (simp add: prohibit_def)

lemma if_Inr_unit: "(if c then a else Inr ()) = Inr () \<longleftrightarrow> (c \<longrightarrow> a = Inr ())"
  by simp

lemma if_Inr_both: "(if c then require a else prohibit b) = Inr () \<longleftrightarrow> (if c then a else \<not> b)"
  by (simp add: require_Inr prohibit_Inr)

lemma rop_require: "raises_only_Prohibited (require b)"
  by (simp add: raises_only_Prohibited_def require_def)

lemma rop_prohibit: "raises_only_Prohibited (prohibit b)"
  by (simp add: raises_only_Prohibited_def prohibit_def)

lemma rop_Inr: "raises_only_Prohibited (Inr ())"
  by (simp add: raises_only_Prohibited_def)

lemma rop_if: "raises_only_Prohibited a \<Longrightarrow> raises_only_Prohibited b \<Longrightarrow> raises_only_Prohibited (if c then a else b)"
  by simp

lemma rop_stmts_Nil: "raises_only_Prohibited (stmts [])"
  by (simp add: raises_only_Prohibited_def)

lemma rop_stmts_Cons:
  "raises_only_Prohibited s \<Longrightarrow> raises_only_Prohibited (stmts ss) \<Longrightarrow> raises_only_Prohibited (stmts (s # ss))"
  by (auto simp: raises_only_Prohibited_def)

lemmas rop_intros = rop_require rop_prohibit rop_Inr rop_if rop_stmts_Nil rop_stmts_Cons

lemma allow_integration_rop: "raises_only_Prohibited (allow_integration_test_task t)"
  unfolding allow_integration_test_task_def by (intro rop_intros)

lemma allow_auth_rop: "raises_only_Prohibited (allow_auth_test_task t)"
  unfolding allow_auth_test_task_def both_or_neither_def by (intro rop_intros)

lemma allow_integration_iff:
  "allow_integration_test_task t = Inr () \<longleftrightarrow>
     (truthy (valgrind t) \<longrightarrow>
        \<not> truthy (asan t) \<and> \<not> truthy (sasl t) \<and> (ssl t = Str ''openssl'' \<or> ssl t = Bool False) \<and>
        \<not> truthy (coverage t) \<and> (if truthy (auth t) then ssl t = Str ''openssl'' else \<not> truthy (ssl t))) \<and>
     (truthy (auth t) \<longrightarrow> truthy (ssl t)) \<and>
     (sasl t = Str ''sspi'' \<longrightarrow>
        topology t = Str ''server'' \<and> version t = Str ''latest'' \<and> ssl t = Str ''winssl'' \<and> truthy (auth t)) \<and>
     (\<not> truthy (ssl t) \<longrightarrow> \<not> truthy (sasl t)) \<and>
     (truthy (coverage t) \<longrightarrow>
        \<not> truthy (sasl t) \<and> (if truthy (auth t) then ssl t = Str ''openssl'' else \<not> truthy (ssl t))) \<and>
     (truthy (asan t) \<longrightarrow>
        \<not> truthy (sasl t) \<and> \<not> truthy (coverage t) \<and>
        (if truthy (auth t) then ssl t = Str ''openssl'' else \<not> truthy (ssl t)))"
  unfolding allow_integration_test_task_def
  by (simp only: stmts_Cons_Inr stmts_Nil_Inr if_Inr_unit if_Inr_both require_Inr prohibit_Inr
        set_simps insert_iff empty_iff simp_thms)


lemma body_ok:
  "allow_integration_test_task t = Inr () \<Longrightarrow> \<exists>t'. integration_test_task_body t = Inr t'"
  by (auto simp: allow_integration_iff integration_test_task_body_def Let_def)

lemma body_axes:
  "integration_test_task_body t = Inr t' \<Longrightarrow>
     valgrind t' = valgrind t \<and> asan t' = asan t \<and> coverage t' = coverage t \<and>
     version t' = version t \<and> topology t' = topology t \<and> auth t' = auth t \<and>
     sasl t' = sasl t \<and> ssl t' = ssl t"
  by (auto simp: integration_test_task_body_def Let_def split: if_splits)

lemma body_tags:
  "integration_test_task_body t = Inr t' \<Longrightarrow>
     tags t' =
       (if truthy (valgrind t) then insert (Str ''test-valgrind'') (tags t)
        else if truthy (coverage t) then insert (Str ''test-coverage'') (tags t)
        else if truthy (asan t) then insert (Str ''test-asan'') (tags t)
        else {version t, topology t, Str (display ''ssl'' (ssl t)),
              Str (display ''sasl'' (sasl t)), Str (display ''auth'' (auth t))} \<union> tags t)"
  by (auto simp: integration_test_task_body_def Let_def split: if_splits)

lemma body_options:
  "integration_test_task_body t = Inr t' \<Longrightarrow>
     options t' =
       (if truthy (valgrind t) then AList.update ''exec_timeout_secs'' 7200 (options t)
        else if truthy (coverage t) \<or> truthy (asan t)
          then AList.update ''exec_timeout_secs'' 3600 (options t)
        else options t)"
  by (auto simp: integration_test_task_body_def Let_def split: if_splits)

lemma body_depends_on:
  "integration_test_task_body t = Inr t' \<Longrightarrow>
     depends_on t' = depends_on t @
       (if truthy (valgrind t) then [''debug-compile-valgrind'']
        else if truthy (asan t) \<and> truthy (ssl t)
          then [''debug-compile-asan-clang-'' @ display ''ssl'' (ssl t)]
        else if truthy (asan t) then [''debug-compile-asan-clang'']
        else if truthy (coverage t) then []
        else [''debug-compile-'' @ display ''sasl'' (sasl t) @ ''-'' @ display ''ssl'' (ssl t)])"
  by (auto simp: integration_test_task_body_def Let_def split: if_splits)

lemma integration_loop_result:
  "\<exists>ts. integration_loop cells acc = Inr (acc @ ts) \<and>
     list_all2 (\<lambda>c t. integration_test_task_body c = Inr t)
       (filter (\<lambda>c. allow_integration_test_task c = Inr ()) cells) ts"
proof (induction cells arbitrary: acc)
  case Nil
  then show ?case by simp
next
  case (Cons c cells)
  from allow_integration_rop [of c]
  consider (ok) "allow_integration_test_task c = Inr ()"
    | (skip) "allow_integration_test_task c = Inl Prohibited"
    by (auto simp: raises_only_Prohibited_def)
  then show ?case
  proof cases
    case ok
    then obtain t' where t': "integration_test_task_body c = Inr t'"
      using body_ok by blast
    from Cons.IH [of "acc @ [t']"] obtain ts where
      "integration_loop cells (acc @ [t']) = Inr ((acc @ [t']) @ ts)"
      "list_all2 (\<lambda>c t. integration_test_task_body c = Inr t)
         (filter (\<lambda>c. allow_integration_test_task c = Inr ()) cells) ts"
      by blast
    with ok t' show ?thesis
      by (intro exI [of _ "t' # ts"]) simp
  next
    case skip
    from Cons.IH [of acc] obtain ts where
      "integration_loop cells acc = Inr (acc @ ts)"
      "list_all2 (\<lambda>c t. integration_test_task_body c = Inr t)
         (filter (\<lambda>c. allow_integration_test_task c = Inr ()) cells) ts"
      by blast
    with skip show ?thesis
      by (intro exI [of _ ts]) simp
  qed
qed

lemma make_integration_result:
  "\<exists>cells ts. matrix IntegrationTask integration_task_axes = Inr cells \<and> distinct cells \<and>
     set cells = integration_candidates \<and> make_integration_test_tasks = Inr ts \<and>
     list_all2 (\<lambda>c t. integration_test_task_body c = Inr t)
       (filter (\<lambda>c. allow_integration_test_task c = Inr ()) cells) ts"
proof -
  from integration_matrix obtain cells where
    c: "matrix IntegrationTask integration_task_axes = Inr cells" "distinct cells"
       "set cells = integration_candidates" by blast
  from integration_loop_result [of cells "[]"] obtain ts where
    "integration_loop cells [] = Inr ts"
    "list_all2 (\<lambda>c t. integration_test_task_body c = Inr t)
       (filter (\<lambda>c. allow_integration_test_task c = Inr ()) cells) ts"
    by auto
  with c show ?thesis
    by (auto simp: make_integration_test_tasks_def)
qed

lemma list_all2_in_set2:
  "list_all2 P xs ys \<Longrightarrow> y \<in> set ys \<Longrightarrow> \<exists>x\<in>set xs. P x y"
  by (induction rule: list_all2_induct) auto

lemma list_all2_in_set1:
  "list_all2 P xs ys \<Longrightarrow> x \<in> set xs \<Longrightarrow> \<exists>y\<in>set ys. P x y"
  by (induction rule: list_all2_induct) auto

lemma integration_survivor_cases:
  assumes "make_integration_test_tasks = Inr ts" "t \<in> set ts"
  obtains c where "c \<in> integration_candidates" "allow_integration_test_task c = Inr ()"
    "integration_test_task_body c = Inr t"
proof -
  from make_integration_result obtain cells ts' where
    r: "set cells = integration_candidates" "make_integration_test_tasks = Inr ts'"
     "list_all2 (\<lambda>c t. integration_test_task_body c = Inr t)
       (filter (\<lambda>c. allow_integration_test_task c = Inr ()) cells) ts'"
    by blast
  from assms(1) r(2) have "ts' = ts" by (metis sum.inject(2))
  with assms(2) have "t \<in> set ts'" by simp
  from list_all2_in_set2 [OF r(3) this] r(1) that show ?thesis by auto
qed

lemma integration_survivor:
  assumes "c \<in> integration_candidates" "allow_integration_test_task c = Inr ()"
    "integration_test_task_body c = Inr t"
  shows "\<exists>ts. make_integration_test_tasks = Inr ts \<and> t \<in> set ts"
proof -
  from make_integration_result obtain cells ts where
    r: "set cells = integration_candidates" "make_integration_test_tasks = Inr ts"
     "list_all2 (\<lambda>c t. integration_test_task_body c = Inr t)
       (filter (\<lambda>c. allow_integration_test_task c = Inr ()) cells) ts"
    by blast
  from assms r(1) have "c \<in> set (filter (\<lambda>c. allow_integration_test_task c = Inr ()) cells)"
    by simp
  from list_all2_in_set1 [OF r(3) this] assms(3) r(2) show ?thesis by auto
qed

subsection \<open>Names of integration tasks\<close>

lemma IntegrationTask_name_closed:
  assumes "truthy (version t)" "truthy (topology t)"
  shows "IntegrationTask_name t =
     ''test-'' @ opt_part ''valgrind'' (valgrind t) @ opt_part ''asan'' (asan t) @
     opt_part ''coverage'' (coverage t) @
     mandatory_parts (version t) (topology t) (auth t) (sasl t) (ssl t)"
  using assms
  by (simp add: IntegrationTask_name_def integration_task_fields_def Task_name_prefix_def
        opt_part_def mandatory_parts_def)

lemma ssl_part_inj:
  assumes "ss \<in> {Str ''openssl'', Str ''darwinssl'', Str ''winssl'', Bool False}"
    "ss' \<in> {Str ''openssl'', Str ''darwinssl'', Str ''winssl'', Bool False}"
    "name_part ''ssl'' ss = name_part ''ssl'' ss'"
  shows "ss = ss'"
  using assms by (auto simp: name_part_def)

lemma sasl_part_inj:
  assumes "sa \<in> {Str ''sasl'', Str ''sspi'', Bool False}"
    "sa' \<in> {Str ''sasl'', Str ''sspi'', Bool False}"
    "name_part ''sasl'' sa @ ''-'' @ X = name_part ''sasl'' sa' @ ''-'' @ Y"
  shows "sa = sa' \<and> X = Y"
  using assms by (auto simp: name_part_def)

lemma auth_part_inj:
  assumes "au \<in> {Bool True, Bool False}" "au' \<in> {Bool True, Bool False}"
    "name_part ''auth'' au @ ''-'' @ X = name_part ''auth'' au' @ ''-'' @ Y"
  shows "au = au' \<and> X = Y"
  using assms by (auto simp: name_part_def)

lemma topology_part_inj:
  assumes "to \<in> {Str ''server'', Str ''replica_set'', Str ''sharded_cluster''}"
    "to' \<in> {Str ''server'', Str ''replica_set'', Str ''sharded_cluster''}"
    "name_part ''topology'' to @ ''-'' @ X = name_part ''topology'' to' @ ''-'' @ Y"
  shows "to = to' \<and> X = Y"
  using assms by (auto simp: name_part_def)

lemma version_part_inj:
  assumes "ve \<in> {Str ''latest'', Str ''4.0'', Str ''3.6'', Str ''3.4'', Str ''3.2'', Str ''3.0''}"
    "ve' \<in> {Str ''latest'', Str ''4.0'', Str ''3.6'', Str ''3.4'', Str ''3.2'', Str ''3.0''}"
    "name_part ''version'' ve @ ''-'' @ X = name_part ''version'' ve' @ ''-'' @ Y"
  shows "ve = ve' \<and> X = Y"
  using assms by (auto simp: name_part_def)

lemma mandatory_parts_inj:
  assumes "ve \<in> {Str ''latest'', Str ''4.0'', Str ''3.6'', Str ''3.4'', Str ''3.2'', Str ''3.0''}"
    "ve' \<in> {Str ''latest'', Str ''4.0'', Str ''3.6'', Str ''3.4'', Str ''3.2'', Str ''3.0''}"
    "to \<in> {Str ''server'', Str ''replica_set'', Str ''sharded_cluster''}"
    "to' \<in> {Str ''server'', Str ''replica_set'', Str ''sharded_cluster''}"
    "au \<in> {Bool True, Bool False}" "au' \<in> {Bool True, Bool False}"
    "sa \<in> {Str ''sasl'', Str ''sspi'', Bool False}"
    "sa' \<in> {Str ''sasl'', Str ''sspi'', Bool False}"
    "ss \<in> {Str ''openssl'', Str ''darwinssl'', Str ''winssl'', Bool False}"
    "ss' \<in> {Str ''openssl'', Str ''darwinssl'', Str ''winssl'', Bool False}"
    "mandatory_parts ve to au sa ss = mandatory_parts ve' to' au' sa' ss'"
  shows "ve = ve' \<and> to = to' \<and> au = au' \<and> sa = sa' \<and> ss = ss'"
proof -
  from assms(11) have e: "name_part ''version'' ve @ ''-'' @ (name_part ''topology'' to @ ''-'' @
     (name_part ''auth'' au @ ''-'' @ (name_part ''sasl'' sa @ ''-'' @ name_part ''ssl'' ss)))
    = name_part ''version'' ve' @ ''-'' @ (name_part ''topology'' to' @ ''-'' @
     (name_part ''auth'' au' @ ''-'' @ (name_part ''sasl'' sa' @ ''-'' @ name_part ''ssl'' ss')))"
    by (simp add: mandatory_parts_def)
  from version_part_inj [OF assms(1,2) e] have 1: "ve = ve'" and
    e1: "name_part ''topology'' to @ ''-'' @
     (name_part ''auth'' au @ ''-'' @ (name_part ''sasl'' sa @ ''-'' @ name_part ''ssl'' ss))
    = name_part ''topology'' to' @ ''-'' @
     (name_part ''auth'' au' @ ''-'' @ (name_part ''sasl'' sa' @ ''-'' @ name_part ''ssl'' ss'))"
    by blast+
  from topology_part_inj [OF assms(3,4) e1] have 2: "to = to'" and
    e2: "name_part ''auth'' au @ ''-'' @ (name_part ''sasl'' sa @ ''-'' @ name_part ''ssl'' ss)
    = name_part ''auth'' au' @ ''-'' @ (name_part ''sasl'' sa' @ ''-'' @ name_part ''ssl'' ss')"
    by blast+
  from auth_part_inj [OF assms(5,6) e2] have 3: "au = au'" and
    e3: "name_part ''sasl'' sa @ ''-'' @ name_part ''ssl'' ss
       = name_part ''sasl'' sa' @ ''-'' @ name_part ''ssl'' ss'"
    by blast+
  from sasl_part_inj [OF assms(7,8) e3] have 4: "sa = sa'" and
    e4: "name_part ''ssl'' ss = name_part ''ssl'' ss'"
    by blast+
  from ssl_part_inj [OF assms(9,10) e4] have 5: "ss = ss'" .
  from 1 2 3 4 5 show ?thesis by simp
qed

text \<open>The first character after the optional mode tokens tells which token comes next.\<close>

lemma mandatory_parts_hd:
  assumes "ve \<in> {Str ''latest'', Str ''4.0'', Str ''3.6'', Str ''3.4'', Str ''3.2'', Str ''3.0''}"
  shows "\<exists>r. mandatory_parts ve to au sa ss = CHR ''l'' # r
           \<or> mandatory_parts ve to au sa ss = CHR ''4'' # r
           \<or> mandatory_parts ve to au sa ss = CHR ''3'' # r"
  using assms by (auto simp: mandatory_parts_def name_part_def)

lemma opt_part_cases:
  assumes "v \<in> {Str tok, Bool False}" "tok \<noteq> []" "tok \<noteq> ''replica_set''" "tok \<noteq> ''sharded_cluster''"
  shows "opt_part axis_name v = (if v = Str tok then tok @ ''-'' else [])"
  using assms by (auto simp: opt_part_def name_part_def)

lemma opt_stage:
  assumes v: "v \<in> {Str (c # tok), Bool False}" "v' \<in> {Str (c # tok), Bool False}"
    and tok: "c # tok \<noteq> ''replica_set''" "c # tok \<noteq> ''sharded_cluster''"
    and e: "opt_part axis_name v @ X = opt_part axis_name v' @ Y"
    and X: "X \<noteq> []" "hd X \<noteq> c" and Y: "Y \<noteq> []" "hd Y \<noteq> c"
  shows "v = v' \<and> X = Y"
proof -
  have o: "opt_part axis_name v = (if v = Str (c # tok) then (c # tok) @ ''-'' else [])"
    "opt_part axis_name v' = (if v' = Str (c # tok) then (c # tok) @ ''-'' else [])"
    using v tok by (simp_all add: opt_part_cases)
  show ?thesis
  proof (cases "v = Str (c # tok)"; cases "v' = Str (c # tok)")
    assume "v = Str (c # tok)" "v' = Str (c # tok)"
    with e o show ?thesis by simp
  next
    assume a: "v = Str (c # tok)" "v' \<noteq> Str (c # tok)"
    with e o have "Y = c # tok @ ''-'' @ X" by simp
    with Y show ?thesis by simp
  next
    assume a: "v \<noteq> Str (c # tok)" "v' = Str (c # tok)"
    with e o have "X = c # tok @ ''-'' @ Y" by simp
    with X show ?thesis by simp
  next
    assume a: "v \<noteq> Str (c # tok)" "v' \<noteq> Str (c # tok)"
    with v have "v = v'" by auto
    with a e o show ?thesis by simp
  qed
qed


lemma opt_part_hd:
  assumes "v \<in> {Str (c # tok), Bool False}"
    "c # tok \<noteq> ''replica_set''" "c # tok \<noteq> ''sharded_cluster''"
    "X \<noteq> [] \<and> hd X \<in> S"
  shows "opt_part axis_name v @ X \<noteq> [] \<and> hd (opt_part axis_name v @ X) \<in> insert c S"
  using assms by (auto simp: opt_part_cases)

lemma candidate_axes:
  assumes "c \<in> integration_candidates"
  shows "valgrind c \<in> {Str ''valgrind'', Bool False}"
    and "asan c \<in> {Str ''asan'', Bool False}"
    and "coverage c \<in> {Str ''coverage'', Bool False}"
    and "version c \<in> {Str ''latest'', Str ''4.0'', Str ''3.6'', Str ''3.4'', Str ''3.2'', Str ''3.0''}"
    and "topology c \<in> {Str ''server'', Str ''replica_set'', Str ''sharded_cluster''}"
    and "auth c \<in> {Bool True, Bool False}"
    and "sasl c \<in> {Str ''sasl'', Str ''sspi'', Bool False}"
    and "ssl c \<in> {Str ''openssl'', Str ''darwinssl'', Str ''winssl'', Bool False}"
  using assms by (simp_all add: integration_candidates_iff)

lemma candidate_derived:
  assumes "c \<in> integration_candidates"
  shows "tags c = {}" and "options c = []" and "depends_on c = []"
  using assms by (simp_all add: integration_candidates_iff)

lemma candidate_truthy:
  assumes "c \<in> integration_candidates"
  shows "truthy (version c)" and "truthy (topology c)"
  using candidate_axes(4) [OF assms] candidate_axes(5) [OF assms] by auto

lemma integration_name_inj:
  assumes c: "c \<in> integration_candidates" and c': "c' \<in> integration_candidates"
    and eq: "IntegrationTask_name c = IntegrationTask_name c'"
  shows "c = c'"
proof -
  note m = candidate_axes [OF c] and m' = candidate_axes [OF c']
  let ?M = "mandatory_parts (version c) (topology c) (auth c) (sasl c) (ssl c)"
  let ?M' = "mandatory_parts (version c') (topology c') (auth c') (sasl c') (ssl c')"
  let ?C = "opt_part ''coverage'' (coverage c) @ ?M"
  let ?C' = "opt_part ''coverage'' (coverage c') @ ?M'"
  let ?A = "opt_part ''asan'' (asan c) @ ?C"
  let ?A' = "opt_part ''asan'' (asan c') @ ?C'"
  from eq have e0: "opt_part ''valgrind'' (valgrind c) @ ?A = opt_part ''valgrind'' (valgrind c') @ ?A'"
    by (simp add: IntegrationTask_name_closed candidate_truthy [OF c] candidate_truthy [OF c'])
  have hM: "?M \<noteq> [] \<and> hd ?M \<in> {CHR ''l'', CHR ''4'', CHR ''3''}"
    using mandatory_parts_hd [OF m(4), of "topology c" "auth c" "sasl c" "ssl c"] by auto
  have hM': "?M' \<noteq> [] \<and> hd ?M' \<in> {CHR ''l'', CHR ''4'', CHR ''3''}"
    using mandatory_parts_hd [OF m'(4), of "topology c'" "auth c'" "sasl c'" "ssl c'"] by auto
  have hC: "?C \<noteq> [] \<and> hd ?C \<in> {CHR ''c'', CHR ''l'', CHR ''4'', CHR ''3''}"
    by (rule opt_part_hd [OF m(3) _ _ hM]) simp_all
  have hC': "?C' \<noteq> [] \<and> hd ?C' \<in> {CHR ''c'', CHR ''l'', CHR ''4'', CHR ''3''}"
    by (rule opt_part_hd [OF m'(3) _ _ hM']) simp_all
  have hA: "?A \<noteq> [] \<and> hd ?A \<in> {CHR ''a'', CHR ''c'', CHR ''l'', CHR ''4'', CHR ''3''}"
    by (rule opt_part_hd [OF m(2) _ _ hC]) simp_all
  have hA': "?A' \<noteq> [] \<and> hd ?A' \<in> {CHR ''a'', CHR ''c'', CHR ''l'', CHR ''4'', CHR ''3''}"
    by (rule opt_part_hd [OF m'(2) _ _ hC']) simp_all
  have 1: "valgrind c = valgrind c' \<and> ?A = ?A'"
    by (rule opt_stage [OF m(1) m'(1) _ _ e0]) (use hA hA' in auto)
  then have e1: "?A = ?A'" by simp
  have 2: "asan c = asan c' \<and> ?C = ?C'"
    by (rule opt_stage [OF m(2) m'(2) _ _ e1]) (use hC hC' in auto)
  then have e2: "?C = ?C'" by simp
  have 3: "coverage c = coverage c' \<and> ?M = ?M'"
    by (rule opt_stage [OF m(3) m'(3) _ _ e2]) (use hM hM' in auto)
  then have e3: "?M = ?M'" by simp
  have 4: "version c = version c' \<and> topology c = topology c' \<and> auth c = auth c' \<and>
     sasl c = sasl c' \<and> ssl c = ssl c'"
    by (rule mandatory_parts_inj [OF m(4) m'(4) m(5) m'(5) m(6) m'(6) m(7) m'(7) m(8) m'(8) e3])
  from 1 2 3 4 candidate_derived [OF c] candidate_derived [OF c'] show ?thesis by simp
qed

lemma body_name:
  "integration_test_task_body c = Inr t \<Longrightarrow> IntegrationTask_name t = IntegrationTask_name c"
  by (drule body_axes) (simp add: IntegrationTask_name_def integration_task_fields_def)

lemma list_all2_map_eq:
  "list_all2 (\<lambda>x y. f x = g y) xs ys \<Longrightarrow> map f xs = map g ys"
  by (induction rule: list_all2_induct) auto

lemma integration_survivor_in:
  assumes "c \<in> integration_candidates" "allow_integration_test_task c = Inr ()"
    "integration_test_task_body c = Inr t" "make_integration_test_tasks = Inr ts"
  shows "t \<in> set ts"
proof -
  from integration_survivor [OF assms(1-3)] obtain ts' where
    "make_integration_test_tasks = Inr ts'" "t \<in> set ts'" by blast
  with assms(4) show ?thesis by (metis sum.inject(2))
qed

lemma valgrind_example:
  assumes "make_integration_test_tasks = Inr ts"
  shows "\<lparr>tags = {Str ''test-valgrind''}, options = [(''exec_timeout_secs'', 7200)],
      depends_on = [''debug-compile-valgrind''],
      valgrind = Str ''valgrind'', asan = Bool False, coverage = Bool False,
      version = Str ''latest'', topology = Str ''server'', auth = Bool True,
      sasl = Bool False, ssl = Str ''openssl''\<rparr> \<in> set ts"
  by (rule integration_survivor_in [OF _ _ _ assms, of
       "\<lparr>tags = {}, options = [], depends_on = [],
         valgrind = Str ''valgrind'', asan = Bool False, coverage = Bool False,
         version = Str ''latest'', topology = Str ''server'', auth = Bool True,
         sasl = Bool False, ssl = Str ''openssl''\<rparr>"])
    (simp_all add: integration_candidates_iff allow_integration_iff integration_test_task_body_def)

lemma plain_example:
  assumes "make_integration_test_tasks = Inr ts"
  shows "\<lparr>tags = {Str ''nossl'', Str ''nosasl'', Str ''noauth'', Str ''latest'', Str ''server''},
      options = [], depends_on = [''debug-compile-nosasl-nossl''],
      valgrind = Bool False, asan = Bool False, coverage = Bool False,
      version = Str ''latest'', topology = Str ''server'', auth = Bool False,
      sasl = Bool False, ssl = Bool False\<rparr> \<in> set ts"
  by (rule integration_survivor_in [OF _ _ _ assms, of
       "\<lparr>tags = {}, options = [], depends_on = [],
         valgrind = Bool False, asan = Bool False, coverage = Bool False,
         version = Str ''latest'', topology = Str ''server'', auth = Bool False,
         sasl = Bool False, ssl = Bool False\<rparr>"])
    (simp_all add: integration_candidates_iff allow_integration_iff integration_test_task_body_def)

text \<open>
  Claim C1. Generation succeeds, and no two of the integration tasks it returns share a
  derived name: the list of names has no repetition, and two different tasks of the list
  have different names.
\<close>

theorem integration_names_distinct:
  "\<exists>ts. make_integration_test_tasks = Inr ts \<and> distinct (map IntegrationTask_name ts) \<and>
     (\<forall>t\<in>set ts. \<forall>t'\<in>set ts. t \<noteq> t' \<longrightarrow> IntegrationTask_name t \<noteq> IntegrationTask_name t')"
proof -
  from make_integration_result obtain cells ts where
    r: "distinct cells" "set cells = integration_candidates" "make_integration_test_tasks = Inr ts"
     "list_all2 (\<lambda>c t. integration_test_task_body c = Inr t)
       (filter (\<lambda>c. allow_integration_test_task c = Inr ()) cells) ts"
    by blast
  have "inj_on IntegrationTask_name (set cells)"
    unfolding r(2) by (rule inj_onI) (rule integration_name_inj)
  with r(1) have "distinct (map IntegrationTask_name cells)"
    by (simp add: distinct_map)
  then have d: "distinct (map IntegrationTask_name
     (filter (\<lambda>c. allow_integration_test_task c = Inr ()) cells))"
    by (rule distinct_map_filter)
  from r(4) have "list_all2 (\<lambda>c t. IntegrationTask_name c = IntegrationTask_name t)
       (filter (\<lambda>c. allow_integration_test_task c = Inr ()) cells) ts"
    by (rule list_all2_mono) (simp add: body_name)
  then have "map IntegrationTask_name (filter (\<lambda>c. allow_integration_test_task c = Inr ()) cells)
    = map IntegrationTask_name ts"
    by (rule list_all2_map_eq)
  with d have dn: "distinct (map IntegrationTask_name ts)" by simp
  then have "inj_on IntegrationTask_name (set ts)" by (simp add: distinct_map)
  then have "\<forall>t\<in>set ts. \<forall>t'\<in>set ts. t \<noteq> t' \<longrightarrow> IntegrationTask_name t \<noteq> IntegrationTask_name t'"
    by (auto dest: inj_onD)
  with r(3) dn show ?thesis by blast
qed

theorem integration_names_distinct_witness:
  "IntegrationTask_name
     \<lparr>tags = {Str ''test-valgrind''}, options = [(''exec_timeout_secs'', 7200)],
      depends_on = [''debug-compile-valgrind''],
      valgrind = Str ''valgrind'', asan = Bool False, coverage = Bool False,
      version = Str ''latest'', topology = Str ''server'', auth = Bool True,
      sasl = Bool False, ssl = Str ''openssl''\<rparr>
   \<noteq> IntegrationTask_name
     \<lparr>tags = {Str ''nossl'', Str ''nosasl'', Str ''noauth'', Str ''latest'', Str ''server''},
      options = [], depends_on = [''debug-compile-nosasl-nossl''],
      valgrind = Bool False, asan = Bool False, coverage = Bool False,
      version = Str ''latest'', topology = Str ''server'', auth = Bool False,
      sasl = Bool False, ssl = Bool False\<rparr>"
proof -
  from integration_names_distinct obtain ts where
    ts: "make_integration_test_tasks = Inr ts" and
    inj: "\<forall>t\<in>set ts. \<forall>t'\<in>set ts. t \<noteq> t' \<longrightarrow> IntegrationTask_name t \<noteq> IntegrationTask_name t'"
    by blast
  show ?thesis
    by (rule inj [rule_format, OF valgrind_example [OF ts] plain_example [OF ts]]) simp
qed

subsection \<open>Constraint rules and derived fields of integration tasks\<close>

lemma integration_survivor_facts:
  assumes "make_integration_test_tasks = Inr ts" "t \<in> set ts"
  obtains c where "c \<in> integration_candidates" "allow_integration_test_task c = Inr ()"
    "valgrind c = valgrind t" "asan c = asan t" "coverage c = coverage t" "version c = version t"
    "topology c = topology t" "auth c = auth t" "sasl c = sasl t" "ssl c = ssl t"
    "integration_test_task_body c = Inr t"
proof -
  from assms obtain c where c: "c \<in> integration_candidates" "allow_integration_test_task c = Inr ()"
    "integration_test_task_body c = Inr t"
    by (rule integration_survivor_cases)
  from body_axes [OF c(3)] c that show ?thesis by simp
qed

lemma make_integration_Inr: "\<exists>ts. make_integration_test_tasks = Inr ts"
  using make_integration_result by blast


lemma allow_valgrind:
  assumes "allow_integration_test_task c = Inr ()" "truthy (valgrind c)"
  shows "\<not> truthy (asan c)" "\<not> truthy (sasl c)" "\<not> truthy (coverage c)"
    "ssl c = Str ''openssl'' \<or> ssl c = Bool False"
    "if truthy (auth c) then ssl c = Str ''openssl'' else \<not> truthy (ssl c)"
  using assms by (simp_all add: allow_integration_iff)

lemma allow_coverage:
  assumes "allow_integration_test_task c = Inr ()" "truthy (coverage c)"
  shows "\<not> truthy (sasl c)"
    "if truthy (auth c) then ssl c = Str ''openssl'' else \<not> truthy (ssl c)"
  using assms by (simp_all add: allow_integration_iff)

lemma allow_asan:
  assumes "allow_integration_test_task c = Inr ()" "truthy (asan c)"
  shows "\<not> truthy (sasl c)" "\<not> truthy (coverage c)"
    "if truthy (auth c) then ssl c = Str ''openssl'' else \<not> truthy (ssl c)"
  using assms by (simp_all add: allow_integration_iff)

lemma allow_auth:
  assumes "allow_integration_test_task c = Inr ()" "truthy (auth c)"
  shows "truthy (ssl c)"
  using assms by (simp add: allow_integration_iff)

lemma allow_no_ssl:
  assumes "allow_integration_test_task c = Inr ()" "\<not> truthy (ssl c)"
  shows "\<not> truthy (sasl c)"
  using assms by (simp add: allow_integration_iff)

lemma allow_modes_exclusive:
  assumes "allow_integration_test_task c = Inr ()"
  shows "\<not> (truthy (valgrind c) \<and> truthy (coverage c))"
    "\<not> (truthy (valgrind c) \<and> truthy (asan c))" "\<not> (truthy (coverage c) \<and> truthy (asan c))"
  using allow_valgrind(1,3) [OF assms] allow_asan(2) [OF assms] by blast+

text \<open>
  Claim C3. In every generated integration task: if \<open>valgrind\<close> is set, then \<open>asan\<close>,
  \<open>sasl\<close> and \<open>coverage\<close> are unset and \<open>ssl\<close> is \<open>openssl\<close> or \<open>False\<close>, being
  \<open>openssl\<close> exactly when \<open>auth\<close> is set; and if \<open>auth\<close> is set, \<open>ssl\<close> is set.
\<close>

theorem valgrind_and_auth_rules_sound:
  "\<exists>ts. make_integration_test_tasks = Inr ts \<and>
     (\<forall>t\<in>set ts.
        (truthy (valgrind t) \<longrightarrow>
           \<not> truthy (asan t) \<and> \<not> truthy (sasl t) \<and> \<not> truthy (coverage t) \<and>
           (ssl t = Str ''openssl'' \<or> ssl t = Bool False) \<and>
           (ssl t = Str ''openssl'' \<longleftrightarrow> truthy (auth t))) \<and>
        (truthy (auth t) \<longrightarrow> truthy (ssl t)))"
proof -
  from make_integration_Inr obtain ts where ts: "make_integration_test_tasks = Inr ts" ..
  have "(truthy (valgrind t) \<longrightarrow>
           \<not> truthy (asan t) \<and> \<not> truthy (sasl t) \<and> \<not> truthy (coverage t) \<and>
           (ssl t = Str ''openssl'' \<or> ssl t = Bool False) \<and>
           (ssl t = Str ''openssl'' \<longleftrightarrow> truthy (auth t))) \<and>
        (truthy (auth t) \<longrightarrow> truthy (ssl t))" if "t \<in> set ts" for t
  proof -
    from ts that obtain c where c: "allow_integration_test_task c = Inr ()"
      "valgrind c = valgrind t" "asan c = asan t" "coverage c = coverage t"
      "auth c = auth t" "sasl c = sasl t" "ssl c = ssl t"
      by (rule integration_survivor_facts)
    from c(1) show ?thesis
      unfolding allow_integration_iff c(2-) by (auto split: if_splits)
  qed
  then show ?thesis
    by - (rule exI [of _ ts], rule conjI [OF ts], rule ballI)
qed

theorem valgrind_and_auth_rules_sound_witness:
  "\<exists>ts. make_integration_test_tasks = Inr ts \<and>
     \<lparr>tags = {Str ''test-valgrind''}, options = [(''exec_timeout_secs'', 7200)],
      depends_on = [''debug-compile-valgrind''],
      valgrind = Str ''valgrind'', asan = Bool False, coverage = Bool False,
      version = Str ''latest'', topology = Str ''server'', auth = Bool True,
      sasl = Bool False, ssl = Str ''openssl''\<rparr> \<in> set ts \<and>
     truthy (valgrind \<lparr>tags = {Str ''test-valgrind''}, options = [(''exec_timeout_secs'', 7200)],
      depends_on = [''debug-compile-valgrind''],
      valgrind = Str ''valgrind'', asan = Bool False, coverage = Bool False,
      version = Str ''latest'', topology = Str ''server'', auth = Bool True,
      sasl = Bool False, ssl = Str ''openssl''\<rparr>) \<and> \<not> truthy (asan \<lparr>tags = {Str ''test-valgrind''}, options = [(''exec_timeout_secs'', 7200)],
      depends_on = [''debug-compile-valgrind''],
      valgrind = Str ''valgrind'', asan = Bool False, coverage = Bool False,
      version = Str ''latest'', topology = Str ''server'', auth = Bool True,
      sasl = Bool False, ssl = Str ''openssl''\<rparr>) \<and> \<not> truthy (sasl \<lparr>tags = {Str ''test-valgrind''}, options = [(''exec_timeout_secs'', 7200)],
      depends_on = [''debug-compile-valgrind''],
      valgrind = Str ''valgrind'', asan = Bool False, coverage = Bool False,
      version = Str ''latest'', topology = Str ''server'', auth = Bool True,
      sasl = Bool False, ssl = Str ''openssl''\<rparr>) \<and>
     \<not> truthy (coverage \<lparr>tags = {Str ''test-valgrind''}, options = [(''exec_timeout_secs'', 7200)],
      depends_on = [''debug-compile-valgrind''],
      valgrind = Str ''valgrind'', asan = Bool False, coverage = Bool False,
      version = Str ''latest'', topology = Str ''server'', auth = Bool True,
      sasl = Bool False, ssl = Str ''openssl''\<rparr>) \<and> ssl \<lparr>tags = {Str ''test-valgrind''}, options = [(''exec_timeout_secs'', 7200)],
      depends_on = [''debug-compile-valgrind''],
      valgrind = Str ''valgrind'', asan = Bool False, coverage = Bool False,
      version = Str ''latest'', topology = Str ''server'', auth = Bool True,
      sasl = Bool False, ssl = Str ''openssl''\<rparr> = Str ''openssl'' \<and> truthy (auth \<lparr>tags = {Str ''test-valgrind''}, options = [(''exec_timeout_secs'', 7200)],
      depends_on = [''debug-compile-valgrind''],
      valgrind = Str ''valgrind'', asan = Bool False, coverage = Bool False,
      version = Str ''latest'', topology = Str ''server'', auth = Bool True,
      sasl = Bool False, ssl = Str ''openssl''\<rparr>) \<and> truthy (ssl \<lparr>tags = {Str ''test-valgrind''}, options = [(''exec_timeout_secs'', 7200)],
      depends_on = [''debug-compile-valgrind''],
      valgrind = Str ''valgrind'', asan = Bool False, coverage = Bool False,
      version = Str ''latest'', topology = Str ''server'', auth = Bool True,
      sasl = Bool False, ssl = Str ''openssl''\<rparr>)"
proof -
  from valgrind_and_auth_rules_sound obtain ts where
    ts: "make_integration_test_tasks = Inr ts" and
    r: "\<forall>t\<in>set ts.
        (truthy (valgrind t) \<longrightarrow>
           \<not> truthy (asan t) \<and> \<not> truthy (sasl t) \<and> \<not> truthy (coverage t) \<and>
           (ssl t = Str ''openssl'' \<or> ssl t = Bool False) \<and>
           (ssl t = Str ''openssl'' \<longleftrightarrow> truthy (auth t))) \<and>
        (truthy (auth t) \<longrightarrow> truthy (ssl t))"
    by blast
  note m = valgrind_example [OF ts]
  from bspec [OF r m] ts m show ?thesis
    by (intro exI [of _ ts]) simp
qed

text \<open>
  Claim C6. The dependency list of every generated integration task follows the priority
  order: \<open>valgrind\<close> gives \<open>debug-compile-valgrind\<close>; otherwise \<open>asan\<close> with \<open>ssl\<close> set gives
  \<open>debug-compile-asan-clang-\<close> followed by the ssl display token; otherwise \<open>asan\<close> gives
  \<open>debug-compile-asan-clang\<close>; otherwise \<open>coverage\<close> gives no dependency; otherwise the one
  dependency is \<open>debug-compile-\<close>, the sasl display token, a hyphen and the ssl display token.
\<close>

theorem dependency_priority_order:
  "\<exists>ts. make_integration_test_tasks = Inr ts \<and>
     (\<forall>t\<in>set ts.
        depends_on t =
          (if truthy (valgrind t) then [''debug-compile-valgrind'']
           else if truthy (asan t) \<and> truthy (ssl t)
             then [''debug-compile-asan-clang-'' @ display ''ssl'' (ssl t)]
           else if truthy (asan t) then [''debug-compile-asan-clang'']
           else if truthy (coverage t) then []
           else [''debug-compile-'' @ display ''sasl'' (sasl t) @ ''-'' @ display ''ssl'' (ssl t)]))"
proof -
  from make_integration_Inr obtain ts where ts: "make_integration_test_tasks = Inr ts" ..
  have "depends_on t =
          (if truthy (valgrind t) then [''debug-compile-valgrind'']
           else if truthy (asan t) \<and> truthy (ssl t)
             then [''debug-compile-asan-clang-'' @ display ''ssl'' (ssl t)]
           else if truthy (asan t) then [''debug-compile-asan-clang'']
           else if truthy (coverage t) then []
           else [''debug-compile-'' @ display ''sasl'' (sasl t) @ ''-'' @ display ''ssl'' (ssl t)])"
    if "t \<in> set ts" for t
  proof -
    from ts that obtain c where c: "c \<in> integration_candidates"
      "valgrind c = valgrind t" "asan c = asan t" "coverage c = coverage t"
      "sasl c = sasl t" "ssl c = ssl t" "integration_test_task_body c = Inr t"
      by (rule integration_survivor_facts)
    from body_depends_on [OF c(7)] candidate_derived(3) [OF c(1)] show ?thesis
      unfolding c(2-6) by simp
  qed
  then show ?thesis
    by - (rule exI [of _ ts], rule conjI [OF ts], rule ballI)
qed

theorem dependency_priority_order_witness:
  "\<exists>ts. make_integration_test_tasks = Inr ts \<and>
     \<lparr>tags = {Str ''test-valgrind''}, options = [(''exec_timeout_secs'', 7200)],
      depends_on = [''debug-compile-valgrind''],
      valgrind = Str ''valgrind'', asan = Bool False, coverage = Bool False,
      version = Str ''latest'', topology = Str ''server'', auth = Bool True,
      sasl = Bool False, ssl = Str ''openssl''\<rparr> \<in> set ts \<and> \<lparr>tags = {Str ''nossl'', Str ''nosasl'', Str ''noauth'', Str ''latest'', Str ''server''},
      options = [], depends_on = [''debug-compile-nosasl-nossl''],
      valgrind = Bool False, asan = Bool False, coverage = Bool False,
      version = Str ''latest'', topology = Str ''server'', auth = Bool False,
      sasl = Bool False, ssl = Bool False\<rparr> \<in> set ts \<and>
     depends_on \<lparr>tags = {Str ''test-valgrind''}, options = [(''exec_timeout_secs'', 7200)],
      depends_on = [''debug-compile-valgrind''],
      valgrind = Str ''valgrind'', asan = Bool False, coverage = Bool False,
      version = Str ''latest'', topology = Str ''server'', auth = Bool True,
      sasl = Bool False, ssl = Str ''openssl''\<rparr> = [''debug-compile-valgrind''] \<and>
     depends_on \<lparr>tags = {Str ''nossl'', Str ''nosasl'', Str ''noauth'', Str ''latest'', Str ''server''},
      options = [], depends_on = [''debug-compile-nosasl-nossl''],
      valgrind = Bool False, asan = Bool False, coverage = Bool False,
      version = Str ''latest'', topology = Str ''server'', auth = Bool False,
      sasl = Bool False, ssl = Bool False\<rparr> = [''debug-compile-nosasl-nossl'']"
proof -
  from dependency_priority_order obtain ts where
    ts: "make_integration_test_tasks = Inr ts" and
    r: "\<forall>t\<in>set ts.
        depends_on t =
          (if truthy (valgrind t) then [''debug-compile-valgrind'']
           else if truthy (asan t) \<and> truthy (ssl t)
             then [''debug-compile-asan-clang-'' @ display ''ssl'' (ssl t)]
           else if truthy (asan t) then [''debug-compile-asan-clang'']
           else if truthy (coverage t) then []
           else [''debug-compile-'' @ display ''sasl'' (sasl t) @ ''-'' @ display ''ssl'' (ssl t)])"
    by blast
  note m0 = valgrind_example [OF ts] and m1 = plain_example [OF ts]
  from bspec [OF r m0] bspec [OF r m1] ts m0 m1 show ?thesis
    by (intro exI [of _ ts]) simp
qed

text \<open>
  Claim C8. In every generated integration task at most one of \<open>valgrind\<close>, \<open>coverage\<close>,
  \<open>asan\<close> is set. If one is set, the tag set is exactly its mode tag and the option
  \<open>exec_timeout_secs\<close> is present: 7200 for valgrind, 3600 for coverage and asan. If
  none is set, the tags are the topology, the version and the display tokens of ssl, sasl
  and auth, and there is no timeout option.
\<close>

theorem mode_tags_and_timeouts:
  "\<exists>ts. make_integration_test_tasks = Inr ts \<and>
     (\<forall>t\<in>set ts.
        \<not> (truthy (valgrind t) \<and> truthy (coverage t)) \<and>
        \<not> (truthy (valgrind t) \<and> truthy (asan t)) \<and>
        \<not> (truthy (coverage t) \<and> truthy (asan t)) \<and>
        (truthy (valgrind t) \<longrightarrow>
           tags t = {Str ''test-valgrind''} \<and> map_of (options t) ''exec_timeout_secs'' = Some 7200) \<and>
        (truthy (coverage t) \<longrightarrow>
           tags t = {Str ''test-coverage''} \<and> map_of (options t) ''exec_timeout_secs'' = Some 3600) \<and>
        (truthy (asan t) \<longrightarrow>
           tags t = {Str ''test-asan''} \<and> map_of (options t) ''exec_timeout_secs'' = Some 3600) \<and>
        (\<not> truthy (valgrind t) \<and> \<not> truthy (coverage t) \<and> \<not> truthy (asan t) \<longrightarrow>
           tags t = {version t, topology t, Str (display ''ssl'' (ssl t)),
                     Str (display ''sasl'' (sasl t)), Str (display ''auth'' (auth t))} \<and>
           map_of (options t) ''exec_timeout_secs'' = None))"
proof -
  from make_integration_Inr obtain ts where ts: "make_integration_test_tasks = Inr ts" ..
  have "\<not> (truthy (valgrind t) \<and> truthy (coverage t)) \<and>
        \<not> (truthy (valgrind t) \<and> truthy (asan t)) \<and>
        \<not> (truthy (coverage t) \<and> truthy (asan t)) \<and>
        (truthy (valgrind t) \<longrightarrow>
           tags t = {Str ''test-valgrind''} \<and> map_of (options t) ''exec_timeout_secs'' = Some 7200) \<and>
        (truthy (coverage t) \<longrightarrow>
           tags t = {Str ''test-coverage''} \<and> map_of (options t) ''exec_timeout_secs'' = Some 3600) \<and>
        (truthy (asan t) \<longrightarrow>
           tags t = {Str ''test-asan''} \<and> map_of (options t) ''exec_timeout_secs'' = Some 3600) \<and>
        (\<not> truthy (valgrind t) \<and> \<not> truthy (coverage t) \<and> \<not> truthy (asan t) \<longrightarrow>
           tags t = {version t, topology t, Str (display ''ssl'' (ssl t)),
                     Str (display ''sasl'' (sasl t)), Str (display ''auth'' (auth t))} \<and>
           map_of (options t) ''exec_timeout_secs'' = None)"
    if "t \<in> set ts" for t
  proof -
    from ts that obtain c where c: "c \<in> integration_candidates"
      "allow_integration_test_task c = Inr ()"
      "valgrind c = valgrind t" "asan c = asan t" "coverage c = coverage t" "version c = version t"
      "topology c = topology t" "auth c = auth t" "sasl c = sasl t" "ssl c = ssl t"
      "integration_test_task_body c = Inr t"
      by (rule integration_survivor_facts)
    have excl: "\<not> (truthy (valgrind t) \<and> truthy (coverage t))"
      "\<not> (truthy (valgrind t) \<and> truthy (asan t))" "\<not> (truthy (coverage t) \<and> truthy (asan t))"
      using allow_modes_exclusive [OF c(2)] unfolding c(3-10) by blast+
    have tg: "tags t =
       (if truthy (valgrind t) then {Str ''test-valgrind''}
        else if truthy (coverage t) then {Str ''test-coverage''}
        else if truthy (asan t) then {Str ''test-asan''}
        else {version t, topology t, Str (display ''ssl'' (ssl t)),
              Str (display ''sasl'' (sasl t)), Str (display ''auth'' (auth t))})"
      using body_tags [OF c(11)] candidate_derived(1) [OF c(1)] unfolding c(3-10) by simp
    have op: "options t =
       (if truthy (valgrind t) then [(''exec_timeout_secs'', 7200)]
        else if truthy (coverage t) \<or> truthy (asan t) then [(''exec_timeout_secs'', 3600)]
        else [])"
      using body_options [OF c(11)] candidate_derived(2) [OF c(1)] unfolding c(3-10) by simp
    show ?thesis
    proof (cases "truthy (valgrind t)")
      case True
      with excl have "\<not> truthy (coverage t)" "\<not> truthy (asan t)" by blast+
      with True show ?thesis by (simp add: tg op)
    next
      case nv: False
      show ?thesis
      proof (cases "truthy (coverage t)")
        case True
        with excl have "\<not> truthy (asan t)" by blast
        with nv True show ?thesis by (simp add: tg op)
      next
        case False
        with nv show ?thesis by (simp add: tg op)
      qed
    qed
  qed
  then show ?thesis
    by - (rule exI [of _ ts], rule conjI [OF ts], rule ballI)
qed

theorem mode_tags_and_timeouts_witness:
  "\<exists>ts. make_integration_test_tasks = Inr ts \<and>
     \<lparr>tags = {Str ''test-valgrind''}, options = [(''exec_timeout_secs'', 7200)],
      depends_on = [''debug-compile-valgrind''],
      valgrind = Str ''valgrind'', asan = Bool False, coverage = Bool False,
      version = Str ''latest'', topology = Str ''server'', auth = Bool True,
      sasl = Bool False, ssl = Str ''openssl''\<rparr> \<in> set ts \<and> \<lparr>tags = {Str ''nossl'', Str ''nosasl'', Str ''noauth'', Str ''latest'', Str ''server''},
      options = [], depends_on = [''debug-compile-nosasl-nossl''],
      valgrind = Bool False, asan = Bool False, coverage = Bool False,
      version = Str ''latest'', topology = Str ''server'', auth = Bool False,
      sasl = Bool False, ssl = Bool False\<rparr> \<in> set ts \<and>
     tags \<lparr>tags = {Str ''test-valgrind''}, options = [(''exec_timeout_secs'', 7200)],
      depends_on = [''debug-compile-valgrind''],
      valgrind = Str ''valgrind'', asan = Bool False, coverage = Bool False,
      version = Str ''latest'', topology = Str ''server'', auth = Bool True,
      sasl = Bool False, ssl = Str ''openssl''\<rparr> = {Str ''test-valgrind''} \<and>
     map_of (options \<lparr>tags = {Str ''test-valgrind''}, options = [(''exec_timeout_secs'', 7200)],
      depends_on = [''debug-compile-valgrind''],
      valgrind = Str ''valgrind'', asan = Bool False, coverage = Bool False,
      version = Str ''latest'', topology = Str ''server'', auth = Bool True,
      sasl = Bool False, ssl = Str ''openssl''\<rparr>) ''exec_timeout_secs'' = Some 7200 \<and>
     tags \<lparr>tags = {Str ''nossl'', Str ''nosasl'', Str ''noauth'', Str ''latest'', Str ''server''},
      options = [], depends_on = [''debug-compile-nosasl-nossl''],
      valgrind = Bool False, asan = Bool False, coverage = Bool False,
      version = Str ''latest'', topology = Str ''server'', auth = Bool False,
      sasl = Bool False, ssl = Bool False\<rparr> = {Str ''latest'', Str ''server'', Str ''nossl'', Str ''nosasl'', Str ''noauth''} \<and>
     map_of (options \<lparr>tags = {Str ''nossl'', Str ''nosasl'', Str ''noauth'', Str ''latest'', Str ''server''},
      options = [], depends_on = [''debug-compile-nosasl-nossl''],
      valgrind = Bool False, asan = Bool False, coverage = Bool False,
      version = Str ''latest'', topology = Str ''server'', auth = Bool False,
      sasl = Bool False, ssl = Bool False\<rparr>) ''exec_timeout_secs'' = None"
proof -
  from mode_tags_and_timeouts obtain ts where
    ts: "make_integration_test_tasks = Inr ts" and
    r: "\<forall>t\<in>set ts.
        \<not> (truthy (valgrind t) \<and> truthy (coverage t)) \<and>
        \<not> (truthy (valgrind t) \<and> truthy (asan t)) \<and>
        \<not> (truthy (coverage t) \<and> truthy (asan t)) \<and>
        (truthy (valgrind t) \<longrightarrow>
           tags t = {Str ''test-valgrind''} \<and> map_of (options t) ''exec_timeout_secs'' = Some 7200) \<and>
        (truthy (coverage t) \<longrightarrow>
           tags t = {Str ''test-coverage''} \<and> map_of (options t) ''exec_timeout_secs'' = Some 3600) \<and>
        (truthy (asan t) \<longrightarrow>
           tags t = {Str ''test-asan''} \<and> map_of (options t) ''exec_timeout_secs'' = Some 3600) \<and>
        (\<not> truthy (valgrind t) \<and> \<not> truthy (coverage t) \<and> \<not> truthy (asan t) \<longrightarrow>
           tags t = {version t, topology t, Str (display ''ssl'' (ssl t)),
                     Str (display ''sasl'' (sasl t)), Str (display ''auth'' (auth t))} \<and>
           map_of (options t) ''exec_timeout_secs'' = None)"
    by blast
  note m0 = valgrind_example [OF ts] and m1 = plain_example [OF ts]
  from bspec [OF r m0] bspec [OF r m1] ts m0 m1 show ?thesis
    by (intro exI [of _ ts]) auto
qed

subsection \<open>The auth family\<close>

lemma auth_matrix:
  "matrix AuthTask auth_task_axes = Inr
    [\<lparr>tags = {}, options = [], depends_on = [], auth_task.sasl = Str ''sasl'', auth_task.ssl = Str ''openssl''\<rparr>,
     \<lparr>tags = {}, options = [], depends_on = [], auth_task.sasl = Str ''sasl'', auth_task.ssl = Str ''darwinssl''\<rparr>,
     \<lparr>tags = {}, options = [], depends_on = [], auth_task.sasl = Str ''sasl'', auth_task.ssl = Str ''winssl''\<rparr>,
     \<lparr>tags = {}, options = [], depends_on = [], auth_task.sasl = Str ''sspi'', auth_task.ssl = Str ''openssl''\<rparr>,
     \<lparr>tags = {}, options = [], depends_on = [], auth_task.sasl = Str ''sspi'', auth_task.ssl = Str ''darwinssl''\<rparr>,
     \<lparr>tags = {}, options = [], depends_on = [], auth_task.sasl = Str ''sspi'', auth_task.ssl = Str ''winssl''\<rparr>,
     \<lparr>tags = {}, options = [], depends_on = [], auth_task.sasl = Bool False, auth_task.ssl = Str ''openssl''\<rparr>,
     \<lparr>tags = {}, options = [], depends_on = [], auth_task.sasl = Bool False, auth_task.ssl = Str ''darwinssl''\<rparr>,
     \<lparr>tags = {}, options = [], depends_on = [], auth_task.sasl = Bool False, auth_task.ssl = Str ''winssl''\<rparr>]"
  by (simp add: matrix_def auth_task_axes_def)

lemma allow_auth_iff:
  "allow_auth_test_task c = Inr () \<longleftrightarrow>
     (auth_task.ssl c = Str ''winssl'' \<longleftrightarrow> auth_task.sasl c = Str ''sspi'') \<and>
     (\<not> truthy (auth_task.sasl c) \<longrightarrow> auth_task.ssl c = Str ''openssl'')"
  unfolding allow_auth_test_task_def both_or_neither_def
  by (simp only: stmts_Cons_Inr stmts_Nil_Inr if_Inr_unit if_Inr_both require_Inr prohibit_Inr simp_thms)
    auto

lemma allow_auth_cases:
  "allow_auth_test_task c = (if (auth_task.ssl c = Str ''winssl'' \<longleftrightarrow> auth_task.sasl c = Str ''sspi'') \<and>
     (\<not> truthy (auth_task.sasl c) \<longrightarrow> auth_task.ssl c = Str ''openssl'') then Inr () else Inl Prohibited)"
  using allow_auth_rop [of c] allow_auth_iff [of c]
  by (auto simp: raises_only_Prohibited_def)

lemma make_auth_result:
  "make_auth_test_tasks = Inr
    [\<lparr>tags = {Str ''authentication-tests'', Str ''openssl'', Str ''sasl''}, options = [],
      depends_on = [''debug-compile-sasl-openssl''], auth_task.sasl = Str ''sasl'', auth_task.ssl = Str ''openssl''\<rparr>,
     \<lparr>tags = {Str ''authentication-tests'', Str ''darwinssl'', Str ''sasl''}, options = [],
      depends_on = [''debug-compile-sasl-darwinssl''], auth_task.sasl = Str ''sasl'', auth_task.ssl = Str ''darwinssl''\<rparr>,
     \<lparr>tags = {Str ''authentication-tests'', Str ''winssl'', Str ''sspi''}, options = [],
      depends_on = [''debug-compile-sspi-winssl''], auth_task.sasl = Str ''sspi'', auth_task.ssl = Str ''winssl''\<rparr>,
     \<lparr>tags = {Str ''authentication-tests'', Str ''openssl'', Str ''nosasl''}, options = [],
      depends_on = [''debug-compile-nosasl-openssl''], auth_task.sasl = Bool False, auth_task.ssl = Str ''openssl''\<rparr>]"
  by (simp add: make_auth_test_tasks_def auth_matrix allow_auth_cases auth_test_task_body_def)

text \<open>
  Claim C10. Generation of the auth family succeeds and returns four tasks, whose
  (sasl, ssl) values and derived names are: (sasl, openssl) named
  \<open>authentication-tests-openssl\<close>, (sasl, darwinssl) named \<open>authentication-tests-darwinssl\<close>,
  (sspi, winssl) named \<open>authentication-tests-winssl\<close>, and (False, openssl) named
  \<open>authentication-tests-openssl-nosasl\<close>.
\<close>

theorem auth_tasks_generated:
  "\<exists>ts. make_auth_test_tasks = Inr ts \<and> length ts = 4 \<and>
     set (map (\<lambda>t. (auth_task.sasl t, auth_task.ssl t, AuthTask_name t)) ts) =
       {(Str ''sasl'', Str ''openssl'', ''authentication-tests-openssl''),
        (Str ''sasl'', Str ''darwinssl'', ''authentication-tests-darwinssl''),
        (Str ''sspi'', Str ''winssl'', ''authentication-tests-winssl''),
        (Bool False, Str ''openssl'', ''authentication-tests-openssl-nosasl'')}"
  by (simp add: make_auth_result AuthTask_name_def AuthTask_name_prefix_def)

text \<open>
  Claim C7. The auth constraint check passes exactly when (ssl is \<open>winssl\<close> if and only if
  sasl is \<open>sspi\<close>) and (sasl falsy implies ssl is \<open>openssl\<close>); a cell of the auth matrix has
  a generated task with its axis values exactly under that condition; the cell
  (sasl False, ssl darwinssl) is in the matrix and no generated task has its values.
\<close>

theorem auth_task_rule:
  "(\<forall>c. allow_auth_test_task c = Inr () \<longleftrightarrow>
      (auth_task.ssl c = Str ''winssl'' \<longleftrightarrow> auth_task.sasl c = Str ''sspi'') \<and>
      (\<not> truthy (auth_task.sasl c) \<longrightarrow> auth_task.ssl c = Str ''openssl'')) \<and>
   (\<exists>cells ts. matrix AuthTask auth_task_axes = Inr cells \<and> make_auth_test_tasks = Inr ts \<and>
      (\<forall>c\<in>set cells.
         (\<exists>t\<in>set ts. auth_task.sasl t = auth_task.sasl c \<and> auth_task.ssl t = auth_task.ssl c) \<longleftrightarrow>
         (auth_task.ssl c = Str ''winssl'' \<longleftrightarrow> auth_task.sasl c = Str ''sspi'') \<and>
         (\<not> truthy (auth_task.sasl c) \<longrightarrow> auth_task.ssl c = Str ''openssl'')) \<and>
      \<lparr>tags = {}, options = [], depends_on = [], auth_task.sasl = Bool False, auth_task.ssl = Str ''darwinssl''\<rparr>
        \<in> set cells \<and>
      (\<forall>t\<in>set ts. \<not> (auth_task.sasl t = Bool False \<and> auth_task.ssl t = Str ''darwinssl'')))"
  by (simp add: allow_auth_iff auth_matrix make_auth_result)

theorem auth_task_rule_witness:
  "allow_auth_test_task
     \<lparr>tags = {}, options = [], depends_on = [], auth_task.sasl = Bool False, auth_task.ssl = Str ''darwinssl''\<rparr>
     \<noteq> Inr () \<and>
   allow_auth_test_task
     \<lparr>tags = {}, options = [], depends_on = [], auth_task.sasl = Str ''sspi'', auth_task.ssl = Str ''winssl''\<rparr>
     = Inr ()"
  using auth_task_rule [THEN conjunct1, THEN spec, of
      "\<lparr>tags = {}, options = [], depends_on = [], auth_task.sasl = Bool False, auth_task.ssl = Str ''darwinssl''\<rparr>"]
    auth_task_rule [THEN conjunct1, THEN spec, of
      "\<lparr>tags = {}, options = [], depends_on = [], auth_task.sasl = Str ''sspi'', auth_task.ssl = Str ''winssl''\<rparr>"]
  by simp

subsection \<open>Name derivation against the specification, and the valgrind scenario\<close>

lemma name_part_spec_token:
  assumes "v \<noteq> Str []" "axis_name \<noteq> ''replica_set''" "axis_name \<noteq> ''sharded_cluster''"
  shows "name_part axis_name v = spec_token axis_name v"
proof (cases v)
  case (Str s)
  with assms show ?thesis by (simp add: name_part_def spec_token_def spec_display_def)
next
  case (Bool b)
  with assms show ?thesis by (cases b) (simp_all add: name_part_def spec_token_def spec_display_def)
qed

lemma display_spec_display:
  assumes "v \<noteq> Str []"
  shows "display axis_name v = spec_display axis_name v"
proof (cases v)
  case (Str s)
  with assms show ?thesis by (simp add: spec_display_def)
next
  case (Bool b)
  then show ?thesis by (cases b) (simp_all add: spec_display_def)
qed

lemma name_by_spec_rule:
  "((\<forall>(axis_name, v)\<in>set (integration_task_fields t). v \<noteq> Str []) \<longrightarrow>
      IntegrationTask_name t = spec_integration_name t) \<and>
   (auth_task.ssl u \<noteq> Str [] \<longrightarrow> AuthTask_name u = spec_auth_name u)"
proof (intro conjI impI)
  assume a: "\<forall>(axis_name, v)\<in>set (integration_task_fields t). v \<noteq> Str []"
  then have ne: "valgrind t \<noteq> Str []" "asan t \<noteq> Str []" "coverage t \<noteq> Str []"
    "version t \<noteq> Str []" "topology t \<noteq> Str []" "auth t \<noteq> Str []" "sasl t \<noteq> Str []"
    "ssl t \<noteq> Str []"
    by (simp_all add: integration_task_fields_def)
  have tok: "name_part ''valgrind'' (valgrind t) = spec_token ''valgrind'' (valgrind t)"
    "name_part ''asan'' (asan t) = spec_token ''asan'' (asan t)"
    "name_part ''coverage'' (coverage t) = spec_token ''coverage'' (coverage t)"
    "name_part ''version'' (version t) = spec_token ''version'' (version t)"
    "name_part ''topology'' (topology t) = spec_token ''topology'' (topology t)"
    "name_part ''auth'' (auth t) = spec_token ''auth'' (auth t)"
    "name_part ''sasl'' (sasl t) = spec_token ''sasl'' (sasl t)"
    "name_part ''ssl'' (ssl t) = spec_token ''ssl'' (ssl t)"
    using ne by (simp_all add: name_part_spec_token)
  show "IntegrationTask_name t = spec_integration_name t"
    by (simp add: IntegrationTask_name_def integration_task_fields_def Task_name_prefix_def
          spec_integration_name_def tok)
next
  assume "auth_task.ssl u \<noteq> Str []"
  then show "AuthTask_name u = spec_auth_name u"
    by (simp add: AuthTask_name_def AuthTask_name_prefix_def spec_auth_name_def display_spec_display)
qed

text \<open>
  Claim C2. The claimed name is not the derived one: the valgrind scenario's cell is
  built by the constructor, passes the constraint check, is decorated by the loop body, and
  its name is \<open>test-valgrind-latest-server-auth-nosasl-openssl\<close> (version before topology, and a
  \<open>nosasl\<close> token), not \<open>test-valgrind-server-latest-auth-openssl\<close>.
\<close>

theorem valgrind_scenario_name_counterexample:
  "IntegrationTask [Str ''valgrind'', Bool False, Bool False, Str ''latest'', Str ''server'',
      Bool True, Bool False, Str ''openssl''] = Inr \<lparr>tags = {}, options = [], depends_on = [],
      valgrind = Str ''valgrind'', asan = Bool False, coverage = Bool False,
      version = Str ''latest'', topology = Str ''server'', auth = Bool True,
      sasl = Bool False, ssl = Str ''openssl''\<rparr> \<and>
   allow_integration_test_task \<lparr>tags = {}, options = [], depends_on = [],
      valgrind = Str ''valgrind'', asan = Bool False, coverage = Bool False,
      version = Str ''latest'', topology = Str ''server'', auth = Bool True,
      sasl = Bool False, ssl = Str ''openssl''\<rparr> = Inr () \<and>
   integration_test_task_body \<lparr>tags = {}, options = [], depends_on = [],
      valgrind = Str ''valgrind'', asan = Bool False, coverage = Bool False,
      version = Str ''latest'', topology = Str ''server'', auth = Bool True,
      sasl = Bool False, ssl = Str ''openssl''\<rparr> = Inr \<lparr>tags = {Str ''test-valgrind''}, options = [(''exec_timeout_secs'', 7200)],
      depends_on = [''debug-compile-valgrind''],
      valgrind = Str ''valgrind'', asan = Bool False, coverage = Bool False,
      version = Str ''latest'', topology = Str ''server'', auth = Bool True,
      sasl = Bool False, ssl = Str ''openssl''\<rparr> \<and>
   IntegrationTask_name \<lparr>tags = {Str ''test-valgrind''}, options = [(''exec_timeout_secs'', 7200)],
      depends_on = [''debug-compile-valgrind''],
      valgrind = Str ''valgrind'', asan = Bool False, coverage = Bool False,
      version = Str ''latest'', topology = Str ''server'', auth = Bool True,
      sasl = Bool False, ssl = Str ''openssl''\<rparr> = ''test-valgrind-latest-server-auth-nosasl-openssl'' \<and>
   IntegrationTask_name \<lparr>tags = {Str ''test-valgrind''}, options = [(''exec_timeout_secs'', 7200)],
      depends_on = [''debug-compile-valgrind''],
      valgrind = Str ''valgrind'', asan = Bool False, coverage = Bool False,
      version = Str ''latest'', topology = Str ''server'', auth = Bool True,
      sasl = Bool False, ssl = Str ''openssl''\<rparr> \<noteq> ''test-valgrind-server-latest-auth-openssl''"
  by (simp add: allow_integration_iff integration_test_task_body_def IntegrationTask_name_def
        integration_task_fields_def Task_name_prefix_def name_part_def)

lemma valgrind_scenario_unique:
  assumes ts: "make_integration_test_tasks = Inr ts" and t: "t \<in> set ts"
    and ax: "valgrind t = Str ''valgrind''" "asan t = Bool False" "coverage t = Bool False"
      "version t = Str ''latest''" "topology t = Str ''server''" "auth t = Bool True"
      "sasl t = Bool False" "ssl t = Str ''openssl''"
  shows "t = \<lparr>tags = {Str ''test-valgrind''}, options = [(''exec_timeout_secs'', 7200)],
      depends_on = [''debug-compile-valgrind''],
      valgrind = Str ''valgrind'', asan = Bool False, coverage = Bool False,
      version = Str ''latest'', topology = Str ''server'', auth = Bool True,
      sasl = Bool False, ssl = Str ''openssl''\<rparr>"
proof -
  from ts t obtain c where c: "c \<in> integration_candidates"
      "valgrind c = valgrind t" "asan c = asan t" "coverage c = coverage t" "version c = version t"
      "topology c = topology t" "auth c = auth t" "sasl c = sasl t" "ssl c = ssl t"
      "integration_test_task_body c = Inr t"
    by (rule integration_survivor_facts)
  from candidate_derived [OF c(1)] c(2-9) ax have "c = \<lparr>tags = {}, options = [], depends_on = [],
      valgrind = Str ''valgrind'', asan = Bool False, coverage = Bool False,
      version = Str ''latest'', topology = Str ''server'', auth = Bool True,
      sasl = Bool False, ssl = Str ''openssl''\<rparr>"
    by simp
  with c(10) show ?thesis
    by (simp add: integration_test_task_body_def)
qed

text \<open>
  Claim C2. (amended) The valgrind scenario's task is generated, and every generated task
  with its axis values has the name \<open>test-valgrind-latest-server-auth-nosasl-openssl\<close>, the tag
  \<open>test-valgrind\<close>, the option \<open>exec_timeout_secs\<close> and the dependency list
  \<open>[debug-compile-valgrind]\<close>.
\<close>

theorem valgrind_scenario:
  "\<exists>ts. make_integration_test_tasks = Inr ts \<and>
     \<lparr>tags = {Str ''test-valgrind''}, options = [(''exec_timeout_secs'', 7200)],
      depends_on = [''debug-compile-valgrind''],
      valgrind = Str ''valgrind'', asan = Bool False, coverage = Bool False,
      version = Str ''latest'', topology = Str ''server'', auth = Bool True,
      sasl = Bool False, ssl = Str ''openssl''\<rparr> \<in> set ts \<and>
     (\<forall>t\<in>set ts.
        valgrind t = Str ''valgrind'' \<and> asan t = Bool False \<and> coverage t = Bool False \<and>
        version t = Str ''latest'' \<and> topology t = Str ''server'' \<and> auth t = Bool True \<and>
        sasl t = Bool False \<and> ssl t = Str ''openssl'' \<longrightarrow>
        IntegrationTask_name t = ''test-valgrind-latest-server-auth-nosasl-openssl'' \<and>
        Str ''test-valgrind'' \<in> tags t \<and>
        map_of (options t) ''exec_timeout_secs'' = Some 7200 \<and>
        depends_on t = [''debug-compile-valgrind''])"
proof -
  from make_integration_Inr obtain ts where ts: "make_integration_test_tasks = Inr ts" ..
  have "IntegrationTask_name t = ''test-valgrind-latest-server-auth-nosasl-openssl'' \<and>
        Str ''test-valgrind'' \<in> tags t \<and>
        map_of (options t) ''exec_timeout_secs'' = Some 7200 \<and>
        depends_on t = [''debug-compile-valgrind'']"
    if "t \<in> set ts" "valgrind t = Str ''valgrind'' \<and> asan t = Bool False \<and> coverage t = Bool False \<and>
        version t = Str ''latest'' \<and> topology t = Str ''server'' \<and> auth t = Bool True \<and>
        sasl t = Bool False \<and> ssl t = Str ''openssl''" for t
  proof -
    from that have "t = \<lparr>tags = {Str ''test-valgrind''}, options = [(''exec_timeout_secs'', 7200)],
      depends_on = [''debug-compile-valgrind''],
      valgrind = Str ''valgrind'', asan = Bool False, coverage = Bool False,
      version = Str ''latest'', topology = Str ''server'', auth = Bool True,
      sasl = Bool False, ssl = Str ''openssl''\<rparr>"
      by (intro valgrind_scenario_unique [OF ts]) simp_all
    then show ?thesis
      by (simp add: IntegrationTask_name_def integration_task_fields_def Task_name_prefix_def
            name_part_def)
  qed
  then have "\<forall>t\<in>set ts.
        valgrind t = Str ''valgrind'' \<and> asan t = Bool False \<and> coverage t = Bool False \<and>
        version t = Str ''latest'' \<and> topology t = Str ''server'' \<and> auth t = Bool True \<and>
        sasl t = Bool False \<and> ssl t = Str ''openssl'' \<longrightarrow>
        IntegrationTask_name t = ''test-valgrind-latest-server-auth-nosasl-openssl'' \<and>
        Str ''test-valgrind'' \<in> tags t \<and>
        map_of (options t) ''exec_timeout_secs'' = Some 7200 \<and>
        depends_on t = [''debug-compile-valgrind'']"
    by (intro ballI impI)
  with ts valgrind_example [OF ts] show ?thesis
    by (intro exI [of _ ts] conjI)
qed

theorem valgrind_scenario_witness:
  "\<exists>ts. make_integration_test_tasks = Inr ts \<and>
     \<lparr>tags = {Str ''test-valgrind''}, options = [(''exec_timeout_secs'', 7200)],
      depends_on = [''debug-compile-valgrind''],
      valgrind = Str ''valgrind'', asan = Bool False, coverage = Bool False,
      version = Str ''latest'', topology = Str ''server'', auth = Bool True,
      sasl = Bool False, ssl = Str ''openssl''\<rparr> \<in> set ts \<and>
     IntegrationTask_name \<lparr>tags = {Str ''test-valgrind''}, options = [(''exec_timeout_secs'', 7200)],
      depends_on = [''debug-compile-valgrind''],
      valgrind = Str ''valgrind'', asan = Bool False, coverage = Bool False,
      version = Str ''latest'', topology = Str ''server'', auth = Bool True,
      sasl = Bool False, ssl = Str ''openssl''\<rparr> = ''test-valgrind-latest-server-auth-nosasl-openssl'' \<and>
     Str ''test-valgrind'' \<in> tags \<lparr>tags = {Str ''test-valgrind''}, options = [(''exec_timeout_secs'', 7200)],
      depends_on = [''debug-compile-valgrind''],
      valgrind = Str ''valgrind'', asan = Bool False, coverage = Bool False,
      version = Str ''latest'', topology = Str ''server'', auth = Bool True,
      sasl = Bool False, ssl = Str ''openssl''\<rparr> \<and>
     map_of (options \<lparr>tags = {Str ''test-valgrind''}, options = [(''exec_timeout_secs'', 7200)],
      depends_on = [''debug-compile-valgrind''],
      valgrind = Str ''valgrind'', asan = Bool False, coverage = Bool False,
      version = Str ''latest'', topology = Str ''server'', auth = Bool True,
      sasl = Bool False, ssl = Str ''openssl''\<rparr>) ''exec_timeout_secs'' = Some 7200 \<and>
     depends_on \<lparr>tags = {Str ''test-valgrind''}, options = [(''exec_timeout_secs'', 7200)],
      depends_on = [''debug-compile-valgrind''],
      valgrind = Str ''valgrind'', asan = Bool False, coverage = Bool False,
      version = Str ''latest'', topology = Str ''server'', auth = Bool True,
      sasl = Bool False, ssl = Str ''openssl''\<rparr> = [''debug-compile-valgrind'']"
proof -
  from valgrind_scenario obtain ts where
    ts: "make_integration_test_tasks = Inr ts" and m: "\<lparr>tags = {Str ''test-valgrind''}, options = [(''exec_timeout_secs'', 7200)],
      depends_on = [''debug-compile-valgrind''],
      valgrind = Str ''valgrind'', asan = Bool False, coverage = Bool False,
      version = Str ''latest'', topology = Str ''server'', auth = Bool True,
      sasl = Bool False, ssl = Str ''openssl''\<rparr> \<in> set ts" and
    r: "\<forall>t\<in>set ts.
        valgrind t = Str ''valgrind'' \<and> asan t = Bool False \<and> coverage t = Bool False \<and>
        version t = Str ''latest'' \<and> topology t = Str ''server'' \<and> auth t = Bool True \<and>
        sasl t = Bool False \<and> ssl t = Str ''openssl'' \<longrightarrow>
        IntegrationTask_name t = ''test-valgrind-latest-server-auth-nosasl-openssl'' \<and>
        Str ''test-valgrind'' \<in> tags t \<and>
        map_of (options t) ''exec_timeout_secs'' = Some 7200 \<and>
        depends_on t = [''debug-compile-valgrind'']"
    by blast
  from bspec [OF r m] have "IntegrationTask_name \<lparr>tags = {Str ''test-valgrind''}, options = [(''exec_timeout_secs'', 7200)],
      depends_on = [''debug-compile-valgrind''],
      valgrind = Str ''valgrind'', asan = Bool False, coverage = Bool False,
      version = Str ''latest'', topology = Str ''server'', auth = Bool True,
      sasl = Bool False, ssl = Str ''openssl''\<rparr> = ''test-valgrind-latest-server-auth-nosasl-openssl''"
    by simp
  with ts m show ?thesis
    by (intro exI [of _ ts]) simp
qed

subsection \<open>Dependencies and the compile-task catalog\<close>

lemma compile_task_names:
  "map CompileTask_name compile_tasks =
    [''debug-compile-compression-zlib'', ''debug-compile-compression-snappy'',
     ''debug-compile-compression'', ''debug-compile-no-align'', ''debug-compile-nosasl-nossl'',
     ''debug-compile-lto'', ''debug-compile-lto-thin'', ''debug-compile-c11'',
     ''debug-compile-c99'', ''debug-compile-c89'', ''debug-compile-valgrind'',
     ''debug-compile-coverage'', ''debug-compile-no-counters'', ''debug-compile-asan-clang'',
     ''debug-compile-asan-gcc'', ''debug-compile-asan-clang-openssl'', ''debug-compile-ubsan'',
     ''debug-compile-scan-build'']"
  by (simp add: compile_tasks_def CompileTask_def SpecialTask_def CompileTask_name_def)

lemma IntegrationTask_name_starts: "take 5 (IntegrationTask_name t) = ''test-''"
  by (simp add: IntegrationTask_name_def Task_name_prefix_def)

lemma generated_depends_on:
  assumes "make_integration_test_tasks = Inr ts" "t \<in> set ts"
  shows "depends_on t =
          (if truthy (valgrind t) then [''debug-compile-valgrind'']
           else if truthy (asan t) \<and> truthy (ssl t)
             then [''debug-compile-asan-clang-'' @ display ''ssl'' (ssl t)]
           else if truthy (asan t) then [''debug-compile-asan-clang'']
           else if truthy (coverage t) then []
           else [''debug-compile-'' @ display ''sasl'' (sasl t) @ ''-'' @ display ''ssl'' (ssl t)])"
proof -
  from assms obtain c where c: "c \<in> integration_candidates"
    "valgrind c = valgrind t" "asan c = asan t" "coverage c = coverage t"
    "sasl c = sasl t" "ssl c = ssl t" "integration_test_task_body c = Inr t"
    by (rule integration_survivor_facts)
  from body_depends_on [OF c(7)] candidate_derived(3) [OF c(1)] show ?thesis
    unfolding c(2-6) by simp
qed

lemma generated_dependency_resolves:
  assumes ts: "make_integration_test_tasks = Inr ts" and t: "t \<in> set ts"
    and d: "d \<in> set (depends_on t)"
  shows "d \<in> set (map CompileTask_name compile_tasks) \<or>
     truthy (ssl t) \<and> d = ''debug-compile-'' @ display ''sasl'' (sasl t) @ ''-'' @ display ''ssl'' (ssl t)"
proof -
  from ts t obtain c where c: "c \<in> integration_candidates"
    "allow_integration_test_task c = Inr ()"
    "valgrind c = valgrind t" "asan c = asan t" "coverage c = coverage t" "version c = version t"
    "topology c = topology t" "auth c = auth t" "sasl c = sasl t" "ssl c = ssl t"
    by (rule integration_survivor_facts)
  note dep = generated_depends_on [OF ts t]
  show ?thesis
  proof (cases "truthy (valgrind t)")
    case True
    with d dep show ?thesis by (simp add: compile_task_names)
  next
    case nv: False
    show ?thesis
    proof (cases "truthy (asan t)")
      case True
      note rule = allow_asan(3) [OF c(2), unfolded c(3-10), OF True]
      show ?thesis
      proof (cases "truthy (ssl t)")
        case s: True
        with rule have "ssl t = Str ''openssl''" by (auto split: if_splits)
        with d dep nv True show ?thesis by (simp add: compile_task_names)
      next
        case False
        with d dep nv True show ?thesis by (simp add: compile_task_names)
      qed
    next
      case na: False
      show ?thesis
      proof (cases "truthy (coverage t)")
        case True
        with d dep nv na show ?thesis by simp
      next
        case nc: False
        show ?thesis
        proof (cases "truthy (ssl t)")
          case True
          with d dep nv na nc show ?thesis by simp
        next
          case False
          with candidate_axes(8) [OF c(1), unfolded c(3-10)] have s: "ssl t = Bool False"
            by auto
          from allow_no_ssl [OF c(2), unfolded c(3-10), OF False]
            candidate_axes(7) [OF c(1), unfolded c(3-10)] have "sasl t = Bool False"
            by auto
          with s d dep nv na nc show ?thesis by (simp add: compile_task_names)
        qed
      qed
    qed
  qed
qed

lemma generated_no_dependency_iff:
  assumes ts: "make_integration_test_tasks = Inr ts" and t: "t \<in> set ts"
  shows "depends_on t = [] \<longleftrightarrow> truthy (coverage t)"
proof -
  from ts t obtain c where c: "allow_integration_test_task c = Inr ()"
    "valgrind c = valgrind t" "asan c = asan t" "coverage c = coverage t"
    by (rule integration_survivor_facts)
  from allow_modes_exclusive [OF c(1), unfolded c(2-4)] generated_depends_on [OF ts t]
  show ?thesis by auto
qed

text \<open>
  Claim C5. The claim fails at the generated auth task (sasl, openssl): its dependency
  \<open>debug-compile-sasl-openssl\<close> is neither a name of the compile-task catalog nor the name of
  a generated task.
\<close>

theorem dependency_outside_catalog_counterexample:
  "make_auth_test_tasks = Inr
    [\<lparr>tags = {Str ''authentication-tests'', Str ''openssl'', Str ''sasl''}, options = [],
      depends_on = [''debug-compile-sasl-openssl''],
      auth_task.sasl = Str ''sasl'', auth_task.ssl = Str ''openssl''\<rparr>,
     \<lparr>tags = {Str ''authentication-tests'', Str ''darwinssl'', Str ''sasl''}, options = [],
      depends_on = [''debug-compile-sasl-darwinssl''],
      auth_task.sasl = Str ''sasl'', auth_task.ssl = Str ''darwinssl''\<rparr>,
     \<lparr>tags = {Str ''authentication-tests'', Str ''winssl'', Str ''sspi''}, options = [],
      depends_on = [''debug-compile-sspi-winssl''],
      auth_task.sasl = Str ''sspi'', auth_task.ssl = Str ''winssl''\<rparr>,
     \<lparr>tags = {Str ''authentication-tests'', Str ''openssl'', Str ''nosasl''}, options = [],
      depends_on = [''debug-compile-nosasl-openssl''],
      auth_task.sasl = Bool False, auth_task.ssl = Str ''openssl''\<rparr>] \<and>
   ''debug-compile-sasl-openssl'' \<in> set (depends_on \<lparr>tags = {Str ''authentication-tests'', Str ''openssl'', Str ''sasl''}, options = [],
      depends_on = [''debug-compile-sasl-openssl''],
      auth_task.sasl = Str ''sasl'', auth_task.ssl = Str ''openssl''\<rparr>) \<and>
   ''debug-compile-sasl-openssl'' \<notin> set (map CompileTask_name compile_tasks) \<union> generated_task_names"
proof -
  from make_integration_Inr obtain ts where ts: "make_integration_test_tasks = Inr ts" ..
  have "''debug-compile-sasl-openssl'' \<notin> set (map IntegrationTask_name ts)"
  proof
    assume "''debug-compile-sasl-openssl'' \<in> set (map IntegrationTask_name ts)"
    then obtain t where "IntegrationTask_name t = ''debug-compile-sasl-openssl''" by auto
    with IntegrationTask_name_starts [of t] show False by simp
  qed
  then have "''debug-compile-sasl-openssl'' \<notin> generated_task_names"
    by (simp add: generated_task_names_def ts make_auth_result AuthTask_name_def
          AuthTask_name_prefix_def)
  then show ?thesis
    by (simp add: make_auth_result compile_task_names)
qed

text \<open>
  Claim C5. (amended) Every dependency name of a generated task, of either family, is a
  name of the compile-task catalog, or it is \<open>debug-compile-\<close>, the sasl display token, a
  hyphen and the ssl display token of a task whose ssl is set. The generated integration
  tasks without a dependency are exactly those in coverage mode, and every generated auth
  task has a dependency.
\<close>

theorem dependencies_catalog_or_keyed:
  "\<exists>its ats. make_integration_test_tasks = Inr its \<and> make_auth_test_tasks = Inr ats \<and>
     (\<forall>t\<in>set its.
        (\<forall>d\<in>set (depends_on t).
           d \<in> set (map CompileTask_name compile_tasks) \<or>
           truthy (ssl t) \<and>
           d = ''debug-compile-'' @ display ''sasl'' (sasl t) @ ''-'' @ display ''ssl'' (ssl t)) \<and>
        (depends_on t = [] \<longleftrightarrow> truthy (coverage t))) \<and>
     (\<forall>t\<in>set ats.
        (\<forall>d\<in>set (depends_on t).
           d \<in> set (map CompileTask_name compile_tasks) \<or>
           truthy (auth_task.ssl t) \<and>
           d = ''debug-compile-'' @ display ''sasl'' (auth_task.sasl t) @ ''-''
                 @ display ''ssl'' (auth_task.ssl t)) \<and>
        depends_on t \<noteq> [])"
proof -
  from make_integration_Inr obtain its where its: "make_integration_test_tasks = Inr its" ..
  have i: "\<forall>t\<in>set its.
        (\<forall>d\<in>set (depends_on t).
           d \<in> set (map CompileTask_name compile_tasks) \<or>
           truthy (ssl t) \<and>
           d = ''debug-compile-'' @ display ''sasl'' (sasl t) @ ''-'' @ display ''ssl'' (ssl t)) \<and>
        (depends_on t = [] \<longleftrightarrow> truthy (coverage t))"
    by (intro ballI conjI generated_dependency_resolves [OF its] generated_no_dependency_iff [OF its])
  show ?thesis
    by (rule exI [of _ its], rule exI, rule conjI [OF its], rule conjI [OF make_auth_result],
        rule conjI [OF i]) simp
qed

theorem dependencies_catalog_or_keyed_witness:
  "\<exists>its ats. make_integration_test_tasks = Inr its \<and> make_auth_test_tasks = Inr ats \<and>
     \<lparr>tags = {Str ''test-valgrind''}, options = [(''exec_timeout_secs'', 7200)],
      depends_on = [''debug-compile-valgrind''],
      valgrind = Str ''valgrind'', asan = Bool False, coverage = Bool False,
      version = Str ''latest'', topology = Str ''server'', auth = Bool True,
      sasl = Bool False, ssl = Str ''openssl''\<rparr> \<in> set its \<and>
     \<lparr>tags = {Str ''authentication-tests'', Str ''openssl'', Str ''sasl''}, options = [],
      depends_on = [''debug-compile-sasl-openssl''],
      auth_task.sasl = Str ''sasl'', auth_task.ssl = Str ''openssl''\<rparr> \<in> set ats \<and>
     ''debug-compile-valgrind'' \<in> set (map CompileTask_name compile_tasks) \<and>
     ''debug-compile-sasl-openssl'' \<notin> set (map CompileTask_name compile_tasks)"
proof -
  from dependencies_catalog_or_keyed obtain its ats where
    its: "make_integration_test_tasks = Inr its" and ats: "make_auth_test_tasks = Inr ats" and
    i: "\<forall>t\<in>set its.
        (\<forall>d\<in>set (depends_on t).
           d \<in> set (map CompileTask_name compile_tasks) \<or>
           truthy (ssl t) \<and>
           d = ''debug-compile-'' @ display ''sasl'' (sasl t) @ ''-'' @ display ''ssl'' (ssl t)) \<and>
        (depends_on t = [] \<longleftrightarrow> truthy (coverage t))"
    by blast
  note m = valgrind_example [OF its]
  from bspec [OF i m] have "''debug-compile-valgrind'' \<in> set (map CompileTask_name compile_tasks)"
    by simp
  moreover from ats have "\<lparr>tags = {Str ''authentication-tests'', Str ''openssl'', Str ''sasl''}, options = [],
      depends_on = [''debug-compile-sasl-openssl''],
      auth_task.sasl = Str ''sasl'', auth_task.ssl = Str ''openssl''\<rparr> \<in> set ats"
    by (auto simp: make_auth_result)
  ultimately show ?thesis using its ats m
    by (intro exI [of _ its] exI [of _ ats]) (simp add: compile_task_names)
qed

subsection \<open>Rejection is caught by the loop\<close>

lemma auth_loop_result:
  "auth_loop cells acc =
     Inr (acc @ map auth_test_task_body (filter (\<lambda>c. allow_auth_test_task c = Inr ()) cells))"
proof (induction cells arbitrary: acc)
  case Nil
  then show ?case by simp
next
  case (Cons c cells)
  from allow_auth_rop [of c]
  consider (ok) "allow_auth_test_task c = Inr ()" | (skip) "allow_auth_test_task c = Inl Prohibited"
    by (auto simp: raises_only_Prohibited_def)
  then show ?case
  proof cases
    case ok
    then show ?thesis by (simp add: Cons.IH)
  next
    case skip
    then show ?thesis by (simp add: Cons.IH)
  qed
qed

lemma body_fields:
  "integration_test_task_body c = Inr t \<Longrightarrow> integration_task_fields t = integration_task_fields c"
  by (drule body_axes) (simp add: integration_task_fields_def)

lemma integration_loop_accepted:
  "\<exists>ts. integration_loop cells [] = Inr ts \<and>
     list_all2 (\<lambda>c t. integration_test_task_body c = Inr t \<and>
            integration_task_fields t = integration_task_fields c)
       (filter (\<lambda>c. allow_integration_test_task c = Inr ()) cells) ts"
proof -
  from integration_loop_result [of cells "[]"] obtain ts where
    l: "integration_loop cells [] = Inr ts" and
    a: "list_all2 (\<lambda>c t. integration_test_task_body c = Inr t)
       (filter (\<lambda>c. allow_integration_test_task c = Inr ()) cells) ts"
    by auto
  from a have "list_all2 (\<lambda>c t. integration_test_task_body c = Inr t \<and>
            integration_task_fields t = integration_task_fields c)
       (filter (\<lambda>c. allow_integration_test_task c = Inr ()) cells) ts"
    by (rule list_all2_mono) (simp add: body_fields)
  with l show ?thesis by blast
qed

text \<open>
  Claim C9. A constraint check either returns or raises \<open>Prohibited\<close>. On every list
  of candidates the generation loops return normally, with exactly the candidates whose
  check returned, each decorated and with its axis values unchanged; so do
  \<open>make_integration_test_tasks\<close> and \<open>make_auth_test_tasks\<close> on their matrices.
\<close>

theorem rejection_only_skips:
  "(\<forall>c. allow_integration_test_task c = Inr () \<or> allow_integration_test_task c = Inl Prohibited) \<and>
   (\<forall>c. allow_auth_test_task c = Inr () \<or> allow_auth_test_task c = Inl Prohibited) \<and>
   (\<forall>cells. \<exists>ts. integration_loop cells [] = Inr ts \<and>
      list_all2 (\<lambda>c t. integration_test_task_body c = Inr t \<and>
            integration_task_fields t = integration_task_fields c)
        (filter (\<lambda>c. allow_integration_test_task c = Inr ()) cells) ts) \<and>
   (\<forall>cells. auth_loop cells [] =
      Inr (map auth_test_task_body (filter (\<lambda>c. allow_auth_test_task c = Inr ()) cells))) \<and>
   (\<forall>c. auth_task.sasl (auth_test_task_body c) = auth_task.sasl c \<and>
        auth_task.ssl (auth_test_task_body c) = auth_task.ssl c) \<and>
   (\<exists>cells ts. matrix IntegrationTask integration_task_axes = Inr cells \<and>
      make_integration_test_tasks = Inr ts \<and>
      list_all2 (\<lambda>c t. integration_test_task_body c = Inr t \<and>
            integration_task_fields t = integration_task_fields c)
        (filter (\<lambda>c. allow_integration_test_task c = Inr ()) cells) ts) \<and>
   (\<exists>cells. matrix AuthTask auth_task_axes = Inr cells \<and>
      make_auth_test_tasks =
        Inr (map auth_test_task_body (filter (\<lambda>c. allow_auth_test_task c = Inr ()) cells)))"
proof (intro conjI allI)
  fix c :: integration_task
  show "allow_integration_test_task c = Inr () \<or> allow_integration_test_task c = Inl Prohibited"
    using allow_integration_rop [of c] by (simp add: raises_only_Prohibited_def)
next
  fix c :: auth_task
  show "allow_auth_test_task c = Inr () \<or> allow_auth_test_task c = Inl Prohibited"
    using allow_auth_rop [of c] by (simp add: raises_only_Prohibited_def)
next
  fix cells :: "integration_task list"
  show "\<exists>ts. integration_loop cells [] = Inr ts \<and>
      list_all2 (\<lambda>c t. integration_test_task_body c = Inr t \<and>
            integration_task_fields t = integration_task_fields c)
        (filter (\<lambda>c. allow_integration_test_task c = Inr ()) cells) ts"
    by (rule integration_loop_accepted)
next
  fix cells :: "auth_task list"
  show "auth_loop cells [] =
      Inr (map auth_test_task_body (filter (\<lambda>c. allow_auth_test_task c = Inr ()) cells))"
    by (simp add: auth_loop_result)
next
  fix c :: auth_task
  show "auth_task.sasl (auth_test_task_body c) = auth_task.sasl c"
    by (simp add: auth_test_task_body_def)
next
  fix c :: auth_task
  show "auth_task.ssl (auth_test_task_body c) = auth_task.ssl c"
    by (simp add: auth_test_task_body_def)
next
  from integration_matrix obtain cells where
    m: "matrix IntegrationTask integration_task_axes = Inr cells" by blast
  from integration_loop_accepted [of cells] obtain ts where
    "integration_loop cells [] = Inr ts"
    "list_all2 (\<lambda>c t. integration_test_task_body c = Inr t \<and>
            integration_task_fields t = integration_task_fields c)
        (filter (\<lambda>c. allow_integration_test_task c = Inr ()) cells) ts"
    by blast
  with m show "\<exists>cells ts. matrix IntegrationTask integration_task_axes = Inr cells \<and>
      make_integration_test_tasks = Inr ts \<and>
      list_all2 (\<lambda>c t. integration_test_task_body c = Inr t \<and>
            integration_task_fields t = integration_task_fields c)
        (filter (\<lambda>c. allow_integration_test_task c = Inr ()) cells) ts"
    by (intro exI [of _ cells] exI [of _ ts]) (simp add: make_integration_test_tasks_def)
next
  show "\<exists>cells. matrix AuthTask auth_task_axes = Inr cells \<and>
      make_auth_test_tasks =
        Inr (map auth_test_task_body (filter (\<lambda>c. allow_auth_test_task c = Inr ()) cells))"
    by (simp add: auth_matrix make_auth_test_tasks_def auth_loop_result)
qed

theorem rejection_only_skips_witness:
  "allow_integration_test_task \<lparr>tags = {}, options = [], depends_on = [],
      valgrind = Bool False, asan = Bool False, coverage = Bool False,
      version = Str ''latest'', topology = Str ''replica_set'', auth = Bool True,
      sasl = Str ''sspi'', ssl = Str ''winssl''\<rparr> = Inl Prohibited \<and>
   integration_loop [\<lparr>tags = {}, options = [], depends_on = [],
      valgrind = Bool False, asan = Bool False, coverage = Bool False,
      version = Str ''latest'', topology = Str ''replica_set'', auth = Bool True,
      sasl = Str ''sspi'', ssl = Str ''winssl''\<rparr>, \<lparr>tags = {}, options = [], depends_on = [],
      valgrind = Str ''valgrind'', asan = Bool False, coverage = Bool False,
      version = Str ''latest'', topology = Str ''server'', auth = Bool True,
      sasl = Bool False, ssl = Str ''openssl''\<rparr>] [] = Inr [\<lparr>tags = {Str ''test-valgrind''}, options = [(''exec_timeout_secs'', 7200)],
      depends_on = [''debug-compile-valgrind''],
      valgrind = Str ''valgrind'', asan = Bool False, coverage = Bool False,
      version = Str ''latest'', topology = Str ''server'', auth = Bool True,
      sasl = Bool False, ssl = Str ''openssl''\<rparr>]"
proof -
  have bad: "allow_integration_test_task \<lparr>tags = {}, options = [], depends_on = [],
      valgrind = Bool False, asan = Bool False, coverage = Bool False,
      version = Str ''latest'', topology = Str ''replica_set'', auth = Bool True,
      sasl = Str ''sspi'', ssl = Str ''winssl''\<rparr> \<noteq> Inr ()"
    by (simp add: allow_integration_iff)
  from rejection_only_skips have
    1: "allow_integration_test_task \<lparr>tags = {}, options = [], depends_on = [],
      valgrind = Bool False, asan = Bool False, coverage = Bool False,
      version = Str ''latest'', topology = Str ''replica_set'', auth = Bool True,
      sasl = Str ''sspi'', ssl = Str ''winssl''\<rparr> = Inr () \<or> allow_integration_test_task \<lparr>tags = {}, options = [], depends_on = [],
      valgrind = Bool False, asan = Bool False, coverage = Bool False,
      version = Str ''latest'', topology = Str ''replica_set'', auth = Bool True,
      sasl = Str ''sspi'', ssl = Str ''winssl''\<rparr> = Inl Prohibited"
    by blast
  from rejection_only_skips obtain ts where
    l: "integration_loop [\<lparr>tags = {}, options = [], depends_on = [],
      valgrind = Bool False, asan = Bool False, coverage = Bool False,
      version = Str ''latest'', topology = Str ''replica_set'', auth = Bool True,
      sasl = Str ''sspi'', ssl = Str ''winssl''\<rparr>, \<lparr>tags = {}, options = [], depends_on = [],
      valgrind = Str ''valgrind'', asan = Bool False, coverage = Bool False,
      version = Str ''latest'', topology = Str ''server'', auth = Bool True,
      sasl = Bool False, ssl = Str ''openssl''\<rparr>] [] = Inr ts" and
    a: "list_all2 (\<lambda>c t. integration_test_task_body c = Inr t \<and>
            integration_task_fields t = integration_task_fields c)
        (filter (\<lambda>c. allow_integration_test_task c = Inr ()) [\<lparr>tags = {}, options = [], depends_on = [],
      valgrind = Bool False, asan = Bool False, coverage = Bool False,
      version = Str ''latest'', topology = Str ''replica_set'', auth = Bool True,
      sasl = Str ''sspi'', ssl = Str ''winssl''\<rparr>, \<lparr>tags = {}, options = [], depends_on = [],
      valgrind = Str ''valgrind'', asan = Bool False, coverage = Bool False,
      version = Str ''latest'', topology = Str ''server'', auth = Bool True,
      sasl = Bool False, ssl = Str ''openssl''\<rparr>]) ts"
    by blast
  have "filter (\<lambda>c. allow_integration_test_task c = Inr ()) [\<lparr>tags = {}, options = [], depends_on = [],
      valgrind = Bool False, asan = Bool False, coverage = Bool False,
      version = Str ''latest'', topology = Str ''replica_set'', auth = Bool True,
      sasl = Str ''sspi'', ssl = Str ''winssl''\<rparr>, \<lparr>tags = {}, options = [], depends_on = [],
      valgrind = Str ''valgrind'', asan = Bool False, coverage = Bool False,
      version = Str ''latest'', topology = Str ''server'', auth = Bool True,
      sasl = Bool False, ssl = Str ''openssl''\<rparr>] = [\<lparr>tags = {}, options = [], depends_on = [],
      valgrind = Str ''valgrind'', asan = Bool False, coverage = Bool False,
      version = Str ''latest'', topology = Str ''server'', auth = Bool True,
      sasl = Bool False, ssl = Str ''openssl''\<rparr>]"
    by (simp add: allow_integration_iff)
  with a have "ts = [\<lparr>tags = {Str ''test-valgrind''}, options = [(''exec_timeout_secs'', 7200)],
      depends_on = [''debug-compile-valgrind''],
      valgrind = Str ''valgrind'', asan = Bool False, coverage = Bool False,
      version = Str ''latest'', topology = Str ''server'', auth = Bool True,
      sasl = Bool False, ssl = Str ''openssl''\<rparr>]"
    by (auto simp: list_all2_Cons1 integration_test_task_body_def)
  with l bad 1 show ?thesis by simp
qed

subsection \<open>Names of the matrix cells and of the generated tasks\<close>

lemma candidate_fields_nonempty:
  assumes "c \<in> integration_candidates"
  shows "\<forall>(axis_name, v)\<in>set (integration_task_fields c). v \<noteq> Str []"
proof -
  have "valgrind c \<noteq> Str []" using candidate_axes(1) [OF assms] by auto
  moreover have "asan c \<noteq> Str []" using candidate_axes(2) [OF assms] by auto
  moreover have "coverage c \<noteq> Str []" using candidate_axes(3) [OF assms] by auto
  moreover have "version c \<noteq> Str []" using candidate_axes(4) [OF assms] by auto
  moreover have "topology c \<noteq> Str []" using candidate_axes(5) [OF assms] by auto
  moreover have "auth c \<noteq> Str []" using candidate_axes(6) [OF assms] by auto
  moreover have "sasl c \<noteq> Str []" using candidate_axes(7) [OF assms] by auto
  moreover have "ssl c \<noteq> Str []" using candidate_axes(8) [OF assms] by auto
  ultimately show ?thesis by (simp add: integration_task_fields_def)
qed

lemma spec_integration_name_fields:
  "integration_task_fields t = integration_task_fields c \<Longrightarrow>
   spec_integration_name t = spec_integration_name c"
  by (simp add: integration_task_fields_def spec_integration_name_def)

lemma IntegrationTask_name_fields:
  "integration_task_fields t = integration_task_fields c \<Longrightarrow>
   IntegrationTask_name t = IntegrationTask_name c"
  by (simp add: IntegrationTask_name_def)

lemma generated_names_by_spec:
  "\<exists>cells ts. matrix IntegrationTask integration_task_axes = Inr cells \<and>
      make_integration_test_tasks = Inr ts \<and>
      (\<forall>t\<in>set cells \<union> set ts. IntegrationTask_name t = spec_integration_name t)"
proof -
  from make_integration_result obtain cells ts where
    r: "matrix IntegrationTask integration_task_axes = Inr cells"
     "set cells = integration_candidates" "make_integration_test_tasks = Inr ts"
    by blast
  have c: "IntegrationTask_name c = spec_integration_name c" if "c \<in> integration_candidates" for c
    by (rule name_by_spec_rule [THEN conjunct1, THEN mp, OF candidate_fields_nonempty [OF that]])
  have "IntegrationTask_name t = spec_integration_name t" if "t \<in> set cells \<union> set ts" for t
  proof (cases "t \<in> set cells")
    case True
    with r(2) c show ?thesis by simp
  next
    case False
    with that have "t \<in> set ts" by simp
    with r(3) obtain c' where c': "c' \<in> integration_candidates"
      "integration_test_task_body c' = Inr t"
      by (rule integration_survivor_cases)
    note f = body_fields [OF c'(2)]
    from c [OF c'(1)] spec_integration_name_fields [OF f] IntegrationTask_name_fields [OF f]
    show ?thesis by simp
  qed
  with r(1,3) show ?thesis
    by (intro exI [of _ cells] exI [of _ ts] conjI ballI)
qed

lemma generated_auth_names_by_spec:
  "\<exists>cells ts. matrix AuthTask auth_task_axes = Inr cells \<and>
      make_auth_test_tasks = Inr ts \<and>
      (\<forall>t\<in>set cells \<union> set ts. AuthTask_name t = spec_auth_name t)"
  by (simp add: auth_matrix make_auth_result AuthTask_name_def AuthTask_name_prefix_def
        spec_auth_name_def spec_display_def)

text \<open>
  Claim C4. The derived name of an integration task is the name built by the
  specification's rule, and likewise for an auth task: for every task none of whose axis
  values is the empty string, and so for every cell of the two matrices and every
  generated task.
\<close>

theorem name_derivation:
  "((\<forall>(axis_name, v)\<in>set (integration_task_fields t). v \<noteq> Str []) \<longrightarrow>
      IntegrationTask_name t = spec_integration_name t) \<and>
   (auth_task.ssl u \<noteq> Str [] \<longrightarrow> AuthTask_name u = spec_auth_name u) \<and>
   (\<exists>cells ts. matrix IntegrationTask integration_task_axes = Inr cells \<and>
      make_integration_test_tasks = Inr ts \<and>
      (\<forall>t\<in>set cells \<union> set ts. IntegrationTask_name t = spec_integration_name t)) \<and>
   (\<exists>cells ts. matrix AuthTask auth_task_axes = Inr cells \<and>
      make_auth_test_tasks = Inr ts \<and>
      (\<forall>t\<in>set cells \<union> set ts. AuthTask_name t = spec_auth_name t))"
  by (rule conjI [OF name_by_spec_rule [THEN conjunct1]
        conjI [OF name_by_spec_rule [THEN conjunct2]
          conjI [OF generated_names_by_spec generated_auth_names_by_spec]]])

theorem name_derivation_witness:
  "IntegrationTask_name \<lparr>tags = {Str ''test-valgrind''}, options = [(''exec_timeout_secs'', 7200)],
      depends_on = [''debug-compile-valgrind''],
      valgrind = Str ''valgrind'', asan = Bool False, coverage = Bool False,
      version = Str ''latest'', topology = Str ''server'', auth = Bool True,
      sasl = Bool False, ssl = Str ''openssl''\<rparr> = ''test-valgrind-latest-server-auth-nosasl-openssl'' \<and>
   spec_integration_name \<lparr>tags = {Str ''test-valgrind''}, options = [(''exec_timeout_secs'', 7200)],
      depends_on = [''debug-compile-valgrind''],
      valgrind = Str ''valgrind'', asan = Bool False, coverage = Bool False,
      version = Str ''latest'', topology = Str ''server'', auth = Bool True,
      sasl = Bool False, ssl = Str ''openssl''\<rparr> = ''test-valgrind-latest-server-auth-nosasl-openssl'' \<and>
   AuthTask_name \<lparr>tags = {}, options = [], depends_on = [],
      auth_task.sasl = Bool False, auth_task.ssl = Str ''openssl''\<rparr> = ''authentication-tests-openssl-nosasl'' \<and>
   spec_auth_name \<lparr>tags = {}, options = [], depends_on = [],
      auth_task.sasl = Bool False, auth_task.ssl = Str ''openssl''\<rparr> = ''authentication-tests-openssl-nosasl''"
  using name_derivation [of "\<lparr>tags = {Str ''test-valgrind''}, options = [(''exec_timeout_secs'', 7200)],
      depends_on = [''debug-compile-valgrind''],
      valgrind = Str ''valgrind'', asan = Bool False, coverage = Bool False,
      version = Str ''latest'', topology = Str ''server'', auth = Bool True,
      sasl = Bool False, ssl = Str ''openssl''\<rparr>" "\<lparr>tags = {}, options = [], depends_on = [],
      auth_task.sasl = Bool False, auth_task.ssl = Str ''openssl''\<rparr>", THEN conjunct1]
    name_derivation [of "\<lparr>tags = {Str ''test-valgrind''}, options = [(''exec_timeout_secs'', 7200)],
      depends_on = [''debug-compile-valgrind''],
      valgrind = Str ''valgrind'', asan = Bool False, coverage = Bool False,
      version = Str ''latest'', topology = Str ''server'', auth = Bool True,
      sasl = Bool False, ssl = Str ''openssl''\<rparr>" "\<lparr>tags = {}, options = [], depends_on = [],
      auth_task.sasl = Bool False, auth_task.ssl = Str ''openssl''\<rparr>", THEN conjunct2, THEN conjunct1]
  by (simp add: integration_task_fields_def spec_integration_name_def spec_auth_name_def
        spec_token_def spec_display_def)

end
